theory Spec2Isabelle
  imports Main "HOL-Library.Sublist"
begin

section \<open>The page script of the MINI-RAG front end\<close>

text \<open>
  \<^verbatim>\<open>src/frontend/script.js\<close> holds two revisions of the same page script, one after the
  other: the first (lines 1 to 369) talks to a placeholder back end, the second (lines 369
  to 674) to the deployed one. They differ in the back end's address, in a few message
  texts, and in the card drawn after an upload. Every function below takes the revision
  as its first argument and follows the source line by line.

  What the script reads from the page (\<^verbatim>\<open>index.html\<close> is not among the sources) is a
  parameter: the elements the script looks up by id are fields of the record \<open>page\<close>,
  and every chip carries a \<^verbatim>\<open>data-role\<close> attribute. What the server answers is not
  restricted: a response is any status with any body, and the body may be any JSON value
  or no JSON at all.

  A JavaScript string is modelled by a HOL string holding its bytes in UTF-8 (an unpaired
  surrogate by the three bytes the same scheme gives its code point). The script compares
  strings, tests them for emptiness and joins them at ASCII text, all of which the bytes
  decide; the one place where it looks at characters is \<^verbatim>\<open>trim\<close>.
\<close>

datatype version = V1 | V2

definition API_BASE :: "version \<Rightarrow> string" where
  "API_BASE v = (case v of
      V1 \<Rightarrow> ''https://your-backend.up.railway.app''
    | V2 \<Rightarrow> ''https://mini-rag-mm0h.onrender.com'')"

subsection \<open>JavaScript values that come out of \<^verbatim>\<open>response.json()\<close>\<close>

text \<open>
  A parsed body is a JSON value. A number is carried as the text JavaScript prints for it
  (\<^verbatim>\<open>Number::toString\<close>, so zero is \<open>''0''\<close> and a negative number starts with a minus
  sign); an object is the list of its own properties, one entry per key. \<open>None\<close> of
  type \<open>jsval\<close> is \<^verbatim>\<open>undefined\<close>, the result of reading a property that is not there.
\<close>

datatype json =
    JNull
  | JBool bool
  | JNum string
  | JStr string
  | JArr "json list"
  | JObj "(string \<times> json) list"

type_synonym jsval = "json option"

text \<open>
  What depends on the browser's engine or on floating point is a parameter: the message
  texts of the \<^verbatim>\<open>TypeError\<close>s the engine raises, the number a string converts to
  (\<^verbatim>\<open>StringToNumber\<close>, again as its printed text, \<open>''NaN''\<close> included), and the text of
  \<^verbatim>\<open>(x * 100).toFixed(0)\<close> for a number \<open>x\<close>.
\<close>

record engine =
  nullReadMsg :: "string \<Rightarrow> string"
  notFunctionMsg :: string
  noPrimitiveMsg :: string
  stringToNumber :: "string \<Rightarrow> string"
  pctOfNumber :: "string \<Rightarrow> string"

text \<open>
  A step that may throw returns \<open>Inl m\<close>, the message of the error thrown, or \<open>Inr x\<close>,
  its value. \<open>andThen\<close> runs the rest of a statement on the value and passes a thrown
  error on.
\<close>

definition andThen :: "string + 'a \<Rightarrow> ('a \<Rightarrow> string + 'b) \<Rightarrow> string + 'b" where
  "andThen step rest = (case step of Inl thrown \<Rightarrow> Inl thrown | Inr x \<Rightarrow> rest x)"

text \<open>\<^verbatim>\<open>if (x)\<close>, \<^verbatim>\<open>x || y\<close>, \<^verbatim>\<open>x && y\<close>, \<^verbatim>\<open>x ? y : z\<close>: which values count as true.\<close>

fun truthy :: "jsval \<Rightarrow> bool" where
  "truthy None = False"
| "truthy (Some JNull) = False"
| "truthy (Some (JBool b)) = b"
| "truthy (Some (JNum s)) = (s \<noteq> ''0'')"
| "truthy (Some (JStr s)) = (s \<noteq> [])"
| "truthy (Some (JArr xs)) = True"
| "truthy (Some (JObj kvs)) = True"

text \<open>
  \<^verbatim>\<open>data.k\<close> for the property names the script reads (\<^verbatim>\<open>detail\<close>, \<^verbatim>\<open>filename\<close>,
  \<^verbatim>\<open>chunks_created\<close>, \<^verbatim>\<open>text_length\<close>, \<^verbatim>\<open>doc_type\<close>, \<^verbatim>\<open>answer\<close>, \<^verbatim>\<open>sources\<close>,
  \<^verbatim>\<open>page\<close>, \<^verbatim>\<open>similarity\<close>): reading from \<^verbatim>\<open>null\<close> throws, an object gives its own
  property, and a boolean, number, string or array has none of these names.
\<close>

fun readProp :: "engine \<Rightarrow> json \<Rightarrow> string \<Rightarrow> string + jsval" where
  "readProp e JNull k = Inl (nullReadMsg e k)"
| "readProp e (JObj kvs) k = Inr (map_of kvs k)"
| "readProp e (JBool b) k = Inr None"
| "readProp e (JNum s) k = Inr None"
| "readProp e (JStr s) k = Inr None"
| "readProp e (JArr xs) k = Inr None"

text \<open>
  \<^verbatim>\<open>ToString\<close>, as a template literal and \<^verbatim>\<open>new Error(x)\<close> apply it. An array is joined
  with commas, \<^verbatim>\<open>null\<close> elements printing as nothing; an object prints as
  \<^verbatim>\<open>[object Object]\<close> unless it has an own property \<^verbatim>\<open>toString\<close>, which is not callable
  and makes the conversion throw.
\<close>

fun toStr :: "engine \<Rightarrow> json \<Rightarrow> string + string"
  and joinStr :: "engine \<Rightarrow> json list \<Rightarrow> string + string" where
  "toStr e JNull = Inr ''null''"
| "toStr e (JBool b) = Inr (if b then ''true'' else ''false'')"
| "toStr e (JNum s) = Inr s"
| "toStr e (JStr s) = Inr s"
| "toStr e (JObj kvs) =
     (if ''toString'' \<in> fst ` set kvs then Inl (noPrimitiveMsg e) else Inr ''[object Object]'')"
| "toStr e (JArr xs) = joinStr e xs"
| "joinStr e [] = Inr ''''"
| "joinStr e (x # xs) =
     (case (if x = JNull then Inr '''' else toStr e x) of
        Inl m \<Rightarrow> Inl m
      | Inr s \<Rightarrow>
          (if xs = [] then Inr s
           else (case joinStr e xs of Inl m \<Rightarrow> Inl m | Inr t \<Rightarrow> Inr (s @ '','' @ t))))"

definition toStrV :: "engine \<Rightarrow> jsval \<Rightarrow> string + string" where
  "toStrV e v = (case v of None \<Rightarrow> Inr ''undefined'' | Some j \<Rightarrow> toStr e j)"

text \<open>\<^verbatim>\<open>ToNumber\<close>, as \<^verbatim>\<open>*\<close> and \<^verbatim>\<open>>\<close> apply it; the result is the number's printed text.\<close>

definition toNumber :: "engine \<Rightarrow> jsval \<Rightarrow> string + string" where
  "toNumber e v = (case v of
      None \<Rightarrow> Inr ''NaN''
    | Some JNull \<Rightarrow> Inr ''0''
    | Some (JBool b) \<Rightarrow> Inr (if b then ''1'' else ''0'')
    | Some (JNum s) \<Rightarrow> Inr s
    | Some (JStr s) \<Rightarrow> Inr (stringToNumber e s)
    | Some (JArr xs) \<Rightarrow> andThen (toStr e (JArr xs)) (\<lambda>s. Inr (stringToNumber e s))
    | Some (JObj kvs) \<Rightarrow> andThen (toStr e (JObj kvs)) (\<lambda>s. Inr (stringToNumber e s)))"

text \<open>\<^verbatim>\<open>x > 0\<close> for a number given by its printed text.\<close>

definition positive :: "string \<Rightarrow> bool" where
  "positive s = (s \<noteq> ''0'' \<and> s \<noteq> ''NaN'' \<and> take 1 s \<noteq> ''-'')"

text \<open>\<^verbatim>\<open>(x * 100).toFixed(0)\<close>.\<close>

definition percent :: "engine \<Rightarrow> jsval \<Rightarrow> string + string" where
  "percent e v = andThen (toNumber e v) (\<lambda>n. Inr (pctOfNumber e n))"

text \<open>
  Assigning \<^verbatim>\<open>textContent\<close>: \<^verbatim>\<open>null\<close> and \<^verbatim>\<open>undefined\<close> clear the text, any other value
  is converted to a string.
\<close>

definition textContentOf :: "engine \<Rightarrow> jsval \<Rightarrow> string + string" where
  "textContentOf e v = (case v of
      None \<Rightarrow> Inr ''''
    | Some JNull \<Rightarrow> Inr ''''
    | Some j \<Rightarrow> toStr e j)"

text \<open>Decimal digits of a natural number.\<close>

fun showNat :: "nat \<Rightarrow> string" where
  "showNat n =
     (if n < 10 then [''0123456789'' ! n]
      else showNat (n div 10) @ [''0123456789'' ! (n mod 10)])"

declare showNat.simps [simp del]

text \<open>
  \<^verbatim>\<open>(size / 1024 / 1024).toFixed(2)\<close> for a file size in bytes. Dividing an integer below
  \<open>2^53\<close> by a power of two is exact, and \<^verbatim>\<open>toFixed\<close> rounds the exact value to the
  nearest hundredth, a tie going up: the hundredths are
  \<open>(200 * size + 2^20) div 2^21\<close>.
\<close>

definition megabytes :: "nat \<Rightarrow> string" where
  "megabytes sz =
     (let n = (200 * sz + 1048576) div 2097152
      in showNat (n div 100) @ ''.'' @ showNat ((n mod 100) div 10) @ showNat (n mod 10))"

text \<open>
  \<^verbatim>\<open>String.prototype.trim\<close> strips white space and line terminators from both ends: tab,
  line feed, vertical tab, form feed, carriage return, space, and beyond ASCII the
  no-break space U+00A0, U+1680, U+2000 to U+200A, the line and paragraph separators
  U+2028 and U+2029, U+202F, U+205F, the ideographic space U+3000 and the byte order mark
  U+FEFF. \<open>whiteSpace\<close> lists them by their bytes in UTF-8: one byte for each of the
  six ASCII characters, the two bytes C2 A0 for the no-break space, three bytes for each
  of the others.
\<close>

definition whiteSpace :: "string list" where
  "whiteSpace =
     [[CHR 0x09], [CHR 0x0A], [CHR 0x0B], [CHR 0x0C], [CHR 0x0D], [CHR 0x20],
      [CHR 0xC2, CHR 0xA0],
      [CHR 0xE1, CHR 0x9A, CHR 0x80],
      [CHR 0xE2, CHR 0x80, CHR 0x80], [CHR 0xE2, CHR 0x80, CHR 0x81],
      [CHR 0xE2, CHR 0x80, CHR 0x82], [CHR 0xE2, CHR 0x80, CHR 0x83],
      [CHR 0xE2, CHR 0x80, CHR 0x84], [CHR 0xE2, CHR 0x80, CHR 0x85],
      [CHR 0xE2, CHR 0x80, CHR 0x86], [CHR 0xE2, CHR 0x80, CHR 0x87],
      [CHR 0xE2, CHR 0x80, CHR 0x88], [CHR 0xE2, CHR 0x80, CHR 0x89],
      [CHR 0xE2, CHR 0x80, CHR 0x8A],
      [CHR 0xE2, CHR 0x80, CHR 0xA8], [CHR 0xE2, CHR 0x80, CHR 0xA9],
      [CHR 0xE2, CHR 0x80, CHR 0xAF],
      [CHR 0xE2, CHR 0x81, CHR 0x9F],
      [CHR 0xE3, CHR 0x80, CHR 0x80],
      [CHR 0xEF, CHR 0xBB, CHR 0xBF]]"

text \<open>
  \<open>strip ws s\<close> takes from the front of \<open>s\<close> every leading character whose bytes are in
  \<open>ws\<close>. A character's bytes are never the beginning of another character's, so a match
  at the front is the first character of the string; read backwards, a match at the end is
  its last character.
\<close>

function strip :: "string list \<Rightarrow> string \<Rightarrow> string" where
  "strip ws s =
     (case find (\<lambda>w. w \<noteq> [] \<and> prefix w s) ws of
        None \<Rightarrow> s
      | Some w \<Rightarrow> strip ws (drop (length w) s))"
  by pat_completeness auto
termination
proof (relation "measure (\<lambda>(ws, s). length s)")
  show "wf (measure (\<lambda>(ws, s). length s))"
    by simp
next
  fix ws :: "string list" and s w :: string
  assume "find (\<lambda>w. w \<noteq> [] \<and> prefix w s) ws = Some w"
  then have "w \<noteq> []" and "prefix w s"
    by (auto simp add: find_Some_iff)
  then obtain rest where "s = w @ rest"
    by (auto simp add: prefix_def)
  with \<open>w \<noteq> []\<close> show "((ws, drop (length w) s), (ws, s)) \<in> measure (\<lambda>(ws, s). length s)"
    by simp
qed

declare strip.simps [simp del]

definition trim :: "string \<Rightarrow> string" where
  "trim s = rev (strip (map rev whiteSpace) (rev (strip whiteSpace s)))"

subsection \<open>The page, the module's variables and the effects\<close>

record js_file =
  fname :: string
  ftype :: string
  fsize :: nat

text \<open>
  A chip of the role selector: its \<^verbatim>\<open>data-role\<close>, its \<^verbatim>\<open>data-target\<close> (which may be
  absent), the element it sits in, and whether it has the class \<^verbatim>\<open>active\<close>.
\<close>

record chip =
  dataRole :: string
  dataTarget :: "string option"
  parentEl :: nat
  isActive :: bool

text \<open>A request handed to \<^verbatim>\<open>fetch\<close>. \<open>JsonText j\<close> is the string \<^verbatim>\<open>JSON.stringify\<close> gives for \<open>j\<close>.\<close>

datatype form_value = FileField js_file | TextField string

datatype body = JsonText json | FormData "(string \<times> form_value) list"

record request =
  meth :: string
  url :: string
  headers :: "(string \<times> string) list"
  payload :: "body option"

text \<open>
  How a \<^verbatim>\<open>fetch\<close> settles: the promise rejects with an error (its message), or a response
  arrives with a status and a body; the body is what \<^verbatim>\<open>response.json()\<close> settles to, a
  rejection (its message) or the parsed value.
\<close>

datatype fetch_result = NetworkError string | Response nat "string + json"

text \<open>\<^verbatim>\<open>response.ok\<close>: the status is in the range 200 to 299.\<close>

definition ok :: "nat \<Rightarrow> bool" where
  "ok status = (200 \<le> status \<and> status \<le> 299)"

text \<open>
  One rendered source of an answer: the file name, the page when the source has one, and
  the similarity as a percentage. The markup around them is fixed text and is left out.
\<close>

record source_item =
  srcName :: string
  srcPage :: "string option"
  srcSimilarity :: string

datatype sources_view = Placeholder string | Items "source_item list"

text \<open>The callback the upload handler leaves with \<^verbatim>\<open>setTimeout(..., 2000)\<close>.\<close>

datatype timer = ResetUploadZone

text \<open>
  The state the handlers read and write: the three module variables, the elements of the
  page, and the logs of what left the script (toasts shown, console lines, requests sent,
  timers set). \<open>uploadResult\<close> is the list of detail lines of the result card, empty
  when the element is cleared; the icons and the markup of the card are left out.
\<close>

record page =
  uploadRole :: string
  searchRole :: string
  selectedFile :: "js_file option"
  uploadText :: string
  uploadSubtext :: string
  fileInputValue :: string
  uploadBtnDisabled :: bool
  uploadBtnLoading :: bool
  uploadResultDisplay :: string
  uploadResult :: "string list"
  docType :: string
  queryInput :: string
  loadingDisplay :: string
  answerDisplay :: string
  answerText :: string
  sourcesList :: sources_view
  scrolls :: nat
  chips :: "chip list"
  toasts :: "(string \<times> string) list"
  console :: "(string \<times> string \<times> string option) list"
  sent :: "request list"
  timers :: "timer list"

subsection \<open>Toasts\<close>

text \<open>
  \<^verbatim>\<open>showToast(message, type)\<close> appends a toast to the container; the toast removes itself
  after 3.3 seconds, which is not modelled: \<open>toasts\<close> lists the toasts in the order shown.
\<close>

definition showToast :: "string \<Rightarrow> string \<Rightarrow> page \<Rightarrow> page" where
  "showToast message ty st = st\<lparr>toasts := toasts st @ [(message, ty)]\<rparr>"

text \<open>
  \<^verbatim>\<open>console.log\<close>, \<^verbatim>\<open>console.warn\<close> and \<^verbatim>\<open>console.error\<close>: the level, the text (without
  the icon some of the texts start with) and, where an error is logged with it, the
  error's message.
\<close>

definition consoleLine :: "string \<Rightarrow> string \<Rightarrow> string option \<Rightarrow> page \<Rightarrow> page" where
  "consoleLine level label arg st = st\<lparr>console := console st @ [(level, label, arg)]\<rparr>"

subsection \<open>Choosing a file\<close>

definition handleFileSelect :: "version \<Rightarrow> js_file option \<Rightarrow> page \<Rightarrow> page" where
  "handleFileSelect v file st =
     (case file of
        None \<Rightarrow> st
      | Some f \<Rightarrow>
          if ftype f \<noteq> ''application/pdf'' then
            showToast ''Please select a PDF file'' ''error'' st
          else if fsize f > 20 * 1024 * 1024 then
            showToast (case v of V1 \<Rightarrow> ''File size exceeds 20MB limit''
                               | V2 \<Rightarrow> ''File exceeds 20MB limit'') ''error'' st
          else
            showToast (''Selected: '' @ fname f) ''success''
              (st\<lparr>selectedFile := Some f,
                  uploadText := fname f,
                  uploadSubtext := megabytes (fsize f) @ '' MB''\<rparr>))"

subsection \<open>Errors of a response that is not ok\<close>

text \<open>
  \<^verbatim>\<open>throw new Error(data.detail || generic)\<close>: the message of what this statement throws.
  Reading \<^verbatim>\<open>detail\<close> from \<^verbatim>\<open>null\<close> throws a \<^verbatim>\<open>TypeError\<close>; a \<^verbatim>\<open>detail\<close> that counts
  as true is converted to a string, which may itself throw; otherwise the message is the
  generic text.
\<close>

definition thrownForDetail :: "engine \<Rightarrow> string \<Rightarrow> json \<Rightarrow> string" where
  "thrownForDetail e generic data =
     (case andThen (readProp e data ''detail'')
             (\<lambda>d. if truthy d then toStrV e d else Inr generic) of
        Inl m \<Rightarrow> m
      | Inr m \<Rightarrow> m)"

subsection \<open>Uploading\<close>

text \<open>
  \<^verbatim>\<open>displayUploadResult\<close>. The first revision declares the function twice (lines 176 and
  325); a later function declaration replaces an earlier one of the same name, so the
  function that runs is the last of the revision's declarations. Each returns the error
  thrown, if any, and the page as it is then.
\<close>

definition interpolate :: "engine \<Rightarrow> json \<Rightarrow> string \<Rightarrow> string + string" where
  "interpolate e obj k = andThen (readProp e obj k) (toStrV e)"

definition displayUploadResult_176 :: "string \<Rightarrow> engine \<Rightarrow> json \<Rightarrow> page \<Rightarrow> string option \<times> page" where
  "displayUploadResult_176 label e data st =
     (case andThen (interpolate e data ''filename'') (\<lambda>fn.
           andThen (interpolate e data ''chunks_created'') (\<lambda>ch.
           andThen (interpolate e data ''doc_type'') (\<lambda>dt.
             Inr [fn, ch @ '' chunks created'', label @ dt]))) of
        Inl m \<Rightarrow> (Some m, st)
      | Inr ls \<Rightarrow> (None, st\<lparr>uploadResult := ls\<rparr>))"

definition displayUploadResult_325 :: "engine \<Rightarrow> json \<Rightarrow> page \<Rightarrow> string option \<times> page" where
  "displayUploadResult_325 e data st =
     (let st1 = st\<lparr>uploadResultDisplay := ''block''\<rparr> in
      case andThen (interpolate e data ''filename'') (\<lambda>fn.
           andThen (interpolate e data ''chunks_created'') (\<lambda>ch.
           andThen (interpolate e data ''text_length'') (\<lambda>tlen.
           andThen (interpolate e data ''doc_type'') (\<lambda>dt.
             Inr [fn, ch @ '' chunks created'', tlen @ '' characters processed'',
                  dt @ '' access level''])))) of
        Inl m \<Rightarrow> (Some m, st1)
      | Inr ls \<Rightarrow> (None, st1\<lparr>uploadResult := ls\<rparr>))"

definition displayUploadResult_decls ::
  "version \<Rightarrow> (engine \<Rightarrow> json \<Rightarrow> page \<Rightarrow> string option \<times> page) list" where
  "displayUploadResult_decls v = (case v of
      V1 \<Rightarrow> [displayUploadResult_176 ''Access level: '', displayUploadResult_325]
    | V2 \<Rightarrow> [displayUploadResult_176 ''Access: ''])"

definition displayUploadResult :: "version \<Rightarrow> engine \<Rightarrow> json \<Rightarrow> page \<Rightarrow> string option \<times> page" where
  "displayUploadResult v = last (displayUploadResult_decls v)"

text \<open>What the timer's callback does when it fires, two seconds after a successful upload.\<close>

definition resetUploadZone :: "page \<Rightarrow> page" where
  "resetUploadZone st =
     st\<lparr>selectedFile := None,
        uploadText := ''Drag & drop PDF here'',
        uploadSubtext := ''or click to browse'',
        fileInputValue := ''''\<rparr>"

text \<open>
  \<^verbatim>\<open>handleUpload\<close> up to the call of \<^verbatim>\<open>fetch\<close>: the form, the loading state, the request.
  It is reached with a selected file only.
\<close>

definition uploadRequest :: "version \<Rightarrow> js_file \<Rightarrow> page \<Rightarrow> request" where
  "uploadRequest v f st =
     \<lparr>meth = ''POST'',
      url = API_BASE v @ ''/api/upload'',
      headers = [],
      payload = Some (FormData [(''file'', FileField f),
                                (''role'', TextField (uploadRole st)),
                                (''doc_type'', TextField (docType st))])\<rparr>"

definition handleUpload_send :: "version \<Rightarrow> js_file \<Rightarrow> page \<Rightarrow> page" where
  "handleUpload_send v f st =
     st\<lparr>uploadBtnDisabled := True,
        uploadBtnLoading := True,
        uploadResult := [],
        sent := sent st @ [uploadRequest v f st]\<rparr>"

text \<open>The rest of the \<^verbatim>\<open>try\<close> block, once the \<^verbatim>\<open>fetch\<close> has settled.\<close>

definition handleUpload_try :: "version \<Rightarrow> engine \<Rightarrow> fetch_result \<Rightarrow> page \<Rightarrow> string option \<times> page" where
  "handleUpload_try v e r st =
     (case r of
        NetworkError m \<Rightarrow> (Some m, st)
      | Response status parsed \<Rightarrow>
          (case parsed of
             Inl m \<Rightarrow> (Some m, st)
           | Inr data \<Rightarrow>
               if ok status then
                 (case displayUploadResult v e data
                         (showToast (case v of V1 \<Rightarrow> ''Document uploaded successfully!''
                                             | V2 \<Rightarrow> ''Upload successful!'') ''success'' st) of
                    (Some m, st1) \<Rightarrow> (Some m, st1)
                  | (None, st1) \<Rightarrow> (None, st1\<lparr>timers := timers st1 @ [ResetUploadZone]\<rparr>))
               else (Some (thrownForDetail e ''Upload failed'' data), st)))"

text \<open>The \<^verbatim>\<open>catch\<close> block, for a caught error with message \<open>m\<close>.\<close>

definition handleUpload_catch :: "version \<Rightarrow> string \<Rightarrow> page \<Rightarrow> page" where
  "handleUpload_catch v m st =
     showToast (if m \<noteq> [] then m
                else (case v of V1 \<Rightarrow> ''Upload failed. Please try again.''
                              | V2 \<Rightarrow> ''Upload failed'')) ''error''
       (consoleLine ''error'' ''Upload error:'' (Some m) st)"

text \<open>The settled \<^verbatim>\<open>try\<close> block, then \<^verbatim>\<open>catch\<close> if it threw, then \<^verbatim>\<open>finally\<close>.\<close>

definition handleUpload_settle :: "version \<Rightarrow> engine \<Rightarrow> fetch_result \<Rightarrow> page \<Rightarrow> page" where
  "handleUpload_settle v e r st =
     (let (thrown, st1) = handleUpload_try v e r st;
          st2 = (case thrown of None \<Rightarrow> st1 | Some m \<Rightarrow> handleUpload_catch v m st1)
      in st2\<lparr>uploadBtnDisabled := False, uploadBtnLoading := False\<rparr>)"

definition handleUpload :: "version \<Rightarrow> engine \<Rightarrow> fetch_result \<Rightarrow> page \<Rightarrow> page" where
  "handleUpload v e r st =
     (case selectedFile st of
        None \<Rightarrow>
          showToast (case v of V1 \<Rightarrow> ''Please select a PDF file first''
                             | V2 \<Rightarrow> ''Please select a PDF first'') ''error'' st
      | Some f \<Rightarrow> handleUpload_settle v e r (handleUpload_send v f st))"

subsection \<open>Role chips\<close>

text \<open>
  The click handler \<^verbatim>\<open>initializeRoleButtons\<close> gives every chip: the chips found under the
  clicked chip's parent lose the class \<^verbatim>\<open>active\<close>, the clicked chip gets it, and the chip's
  role goes to the variable its target names.
\<close>

definition chipTarget :: "chip \<Rightarrow> string" where
  "chipTarget c = (case dataTarget c of
      None \<Rightarrow> ''upload''
    | Some t \<Rightarrow> if t \<noteq> [] then t else ''upload'')"

definition activate :: "nat \<Rightarrow> chip list \<Rightarrow> chip list" where
  "activate i cs =
     (map (\<lambda>s. if parentEl s = parentEl (cs ! i) then s\<lparr>isActive := False\<rparr> else s) cs)
       [i := (cs ! i)\<lparr>isActive := True\<rparr>]"

definition chipClick :: "nat \<Rightarrow> page \<Rightarrow> page" where
  "chipClick i st =
     (if i < length (chips st) then
        (let c = chips st ! i;
             st1 = st\<lparr>chips := activate i (chips st)\<rparr>
         in if chipTarget c = ''search'' then st1\<lparr>searchRole := dataRole c\<rparr>
            else st1\<lparr>uploadRole := dataRole c\<rparr>)
      else st)"

subsection \<open>Searching\<close>

definition renderSource :: "engine \<Rightarrow> json \<Rightarrow> string + source_item" where
  "renderSource e src =
     andThen (interpolate e src ''filename'') (\<lambda>nm.
     andThen (readProp e src ''page'') (\<lambda>pg.
     andThen (if truthy pg then andThen (toStrV e pg) (\<lambda>s. Inr (Some s)) else Inr None) (\<lambda>pgText.
     andThen (readProp e src ''similarity'') (\<lambda>sim.
     andThen (percent e sim) (\<lambda>pct.
       Inr \<lparr>srcName = nm, srcPage = pgText, srcSimilarity = pct\<rparr>)))))"

fun renderSources :: "engine \<Rightarrow> json list \<Rightarrow> string + source_item list" where
  "renderSources e [] = Inr []"
| "renderSources e (x # xs) =
     andThen (renderSource e x) (\<lambda>i.
     andThen (renderSources e xs) (\<lambda>is. Inr (i # is)))"

text \<open>\<^verbatim>\<open>s.length > 0\<close> for a value \<open>s\<close> that counts as true.\<close>

definition lengthPositive :: "engine \<Rightarrow> json \<Rightarrow> string + bool" where
  "lengthPositive e s = (case s of
      JArr xs \<Rightarrow> Inr (xs \<noteq> [])
    | JStr t \<Rightarrow> Inr (t \<noteq> [])
    | JObj kvs \<Rightarrow> andThen (toNumber e (map_of kvs ''length'')) (\<lambda>n. Inr (positive n))
    | JNull \<Rightarrow> Inl (nullReadMsg e ''length'')
    | JBool b \<Rightarrow> Inr False
    | JNum n \<Rightarrow> Inr False)"

text \<open>
  The branch on \<^verbatim>\<open>data.sources\<close>: the list of rendered sources when it is a non-empty
  array, an error when it has a positive length and no \<^verbatim>\<open>map\<close> function, the placeholder
  in every other case.
\<close>

definition sourcesView :: "version \<Rightarrow> engine \<Rightarrow> jsval \<Rightarrow> string + sources_view" where
  "sourcesView v e s =
     (let none = Placeholder (case v of V1 \<Rightarrow> ''No sources available'' | V2 \<Rightarrow> ''No sources'') in
      case s of
        None \<Rightarrow> Inr none
      | Some j \<Rightarrow>
          if \<not> truthy (Some j) then Inr none
          else andThen (lengthPositive e j) (\<lambda>pos.
            if \<not> pos then Inr none
            else (case j of
                    JArr xs \<Rightarrow> andThen (renderSources e xs) (\<lambda>is. Inr (Items is))
                  | _ \<Rightarrow> Inl (notFunctionMsg e))))"

definition displayAnswer :: "version \<Rightarrow> engine \<Rightarrow> json \<Rightarrow> page \<Rightarrow> string option \<times> page" where
  "displayAnswer v e data st =
     (let st1 = st\<lparr>loadingDisplay := ''none'', answerDisplay := ''block''\<rparr> in
      case andThen (readProp e data ''answer'') (textContentOf e) of
        Inl m \<Rightarrow> (Some m, st1)
      | Inr a \<Rightarrow>
          (let st2 = st1\<lparr>answerText := a\<rparr> in
           case andThen (readProp e data ''sources'') (sourcesView v e) of
             Inl m \<Rightarrow> (Some m, st2)
           | Inr view \<Rightarrow> (None, st2\<lparr>sourcesList := view, scrolls := Suc (scrolls st2)\<rparr>)))"

definition searchRequest :: "version \<Rightarrow> string \<Rightarrow> page \<Rightarrow> request" where
  "searchRequest v query st =
     \<lparr>meth = ''POST'',
      url = API_BASE v @ ''/api/query'',
      headers = [(''Content-Type'', ''application/json'')],
      payload = Some (JsonText (JObj [(''query'', JStr query), (''role'', JStr (searchRole st))]))\<rparr>"

text \<open>\<^verbatim>\<open>handleSearch\<close> up to the call of \<^verbatim>\<open>fetch\<close>, for a query that is not empty.\<close>

definition handleSearch_send :: "version \<Rightarrow> string \<Rightarrow> page \<Rightarrow> page" where
  "handleSearch_send v query st =
     st\<lparr>loadingDisplay := ''block'',
        answerDisplay := ''none'',
        sent := sent st @ [searchRequest v query st]\<rparr>"

definition handleSearch_try :: "version \<Rightarrow> engine \<Rightarrow> fetch_result \<Rightarrow> page \<Rightarrow> string option \<times> page" where
  "handleSearch_try v e r st =
     (case r of
        NetworkError m \<Rightarrow> (Some m, st)
      | Response status parsed \<Rightarrow>
          (case parsed of
             Inl m \<Rightarrow> (Some m, st)
           | Inr data \<Rightarrow>
               if ok status then displayAnswer v e data st
               else (Some (thrownForDetail e ''Search failed'' data), st)))"

text \<open>The \<^verbatim>\<open>catch\<close> block, for a caught error with message \<open>m\<close>.\<close>

definition handleSearch_catch :: "version \<Rightarrow> string \<Rightarrow> page \<Rightarrow> page" where
  "handleSearch_catch v m st =
     (showToast (if m \<noteq> [] then m
                 else (case v of V1 \<Rightarrow> ''Search failed. Please try again.''
                               | V2 \<Rightarrow> ''Search failed'')) ''error''
        (consoleLine ''error'' ''Search error:'' (Some m) st))
     \<lparr>loadingDisplay := ''none''\<rparr>"

definition handleSearch_settle :: "version \<Rightarrow> engine \<Rightarrow> fetch_result \<Rightarrow> page \<Rightarrow> page" where
  "handleSearch_settle v e r st =
     (let (thrown, st1) = handleSearch_try v e r st in
      case thrown of None \<Rightarrow> st1 | Some m \<Rightarrow> handleSearch_catch v m st1)"

definition handleSearch :: "version \<Rightarrow> engine \<Rightarrow> fetch_result \<Rightarrow> page \<Rightarrow> page" where
  "handleSearch v e r st =
     (let query = trim (queryInput st) in
      if query = [] then showToast ''Please enter a question'' ''error'' st
      else handleSearch_settle v e r (handleSearch_send v query st))"

subsection \<open>The health check\<close>

definition healthRequest :: "version \<Rightarrow> request" where
  "healthRequest v =
     \<lparr>meth = ''GET'', url = API_BASE v @ ''/api/health'', headers = [], payload = None\<rparr>"

definition checkBackendHealth :: "version \<Rightarrow> fetch_result \<Rightarrow> page \<Rightarrow> page" where
  "checkBackendHealth v r st =
     (let st1 = st\<lparr>sent := sent st @ [healthRequest v]\<rparr> in
      case r of
        Response status parsed \<Rightarrow>
          if ok status then
            consoleLine ''log'' (case v of V1 \<Rightarrow> ''Backend is healthy''
                                         | V2 \<Rightarrow> ''Backend healthy'') None st1
          else consoleLine ''warn'' ''Backend health check failed'' None st1
      | NetworkError m \<Rightarrow>
          showToast (case v of
                       V1 \<Rightarrow> ''Warning: Backend connection issue. Check API_BASE in script.js''
                     | V2 \<Rightarrow> ''Backend connection issue'') ''error''
            (consoleLine ''error'' ''Cannot connect to backend:'' (Some m) st1))"

text \<open>
  A run of \<^verbatim>\<open>handleUpload\<close> or \<^verbatim>\<open>handleSearch\<close> has two parts. The first, up to the call of
  \<^verbatim>\<open>fetch\<close>, runs when the handler is called. The second runs when the \<^verbatim>\<open>fetch\<close> has
  settled: between the two \<^verbatim>\<open>await\<close>s the script neither reads nor writes the page, so
  everything the second part does to the page it does in one go, on the page as it is at
  that moment. Other handlers may have run in between; the script disables the upload
  button while an upload is pending, but it leaves the search button and the Enter key
  working while a search is pending, so a second search may start, and end, before the
  first has settled. \<open>handleSearch_settle\<close> and \<open>handleUpload_settle\<close> take the page as
  it is when the \<^verbatim>\<open>fetch\<close> settles; \<open>handleSearch\<close> and \<open>handleUpload\<close> are the runs
  with nothing in between. The result of the \<^verbatim>\<open>fetch\<close> is an argument, so a run is one
  that ends.
\<close>

subsection \<open>The shape of a query response\<close>

text \<open>A value that is there and is a string, or a number.\<close>

fun isStr :: "jsval \<Rightarrow> bool" where
  "isStr (Some (JStr s)) = True"
| "isStr v = False"

fun isNum :: "jsval \<Rightarrow> bool" where
  "isNum (Some (JNum n)) = True"
| "isNum v = False"

text \<open>
  Modelled from the spec: section 6 gives the entries of \<^verbatim>\<open>sources\<close> in a successful
  \<^verbatim>\<open>/api/query\<close> response as \<^verbatim>\<open>{filename, page?, similarity}\<close>; the back end that would
  produce them is not in the repository. An entry of that shape is an object with a string
  file name, a number for the similarity and, when there is a page, a number for it.
\<close>

fun sourceShaped :: "json \<Rightarrow> bool" where
  "sourceShaped (JObj kvs) =
     (isStr (map_of kvs ''filename'') \<and>
      (map_of kvs ''page'' = None \<or> isNum (map_of kvs ''page'')) \<and>
      isNum (map_of kvs ''similarity''))"
| "sourceShaped src = False"

fun isSourceArray :: "jsval \<Rightarrow> bool" where
  "isSourceArray (Some (JArr srcs)) = list_all sourceShaped srcs"
| "isSourceArray v = False"

text \<open>
  Modelled from the spec: section 6 gives the body of a successful \<^verbatim>\<open>/api/query\<close> response
  as \<^verbatim>\<open>{answer: string, sources: [{filename, page?, similarity}]}\<close>; the back end that
  would produce it is not in the repository. A body of that shape is an object with a
  string answer and an array of sources of the shape above.
\<close>

fun answerShaped :: "json \<Rightarrow> bool" where
  "answerShaped (JObj kvs) =
     (isStr (map_of kvs ''answer'') \<and> isSourceArray (map_of kvs ''sources''))"
| "answerShaped data = False"

section \<open>The retrieval core the specification describes\<close>

text \<open>
  The repository has no back end. The definitions of this section follow sections 4.3 to
  4.5 of the specification, which describe the access filter, the vector index and the
  retriever a back end is to have. Embedding a text and scoring two vectors are
  parameters: the first may fail, the second gives a score in any linear order (the
  specification names cosine similarity).
\<close>

datatype rag_error =
    EmptyInputError
  | DimensionMismatchError
  | UnknownRoleError
  | EmbeddingError
  | GenerationError
  | TimeoutError

record 'v chunk =
  chunk_id :: nat
  document_id :: nat
  chunk_text :: string
  chunk_page :: "nat option"
  embedding :: 'v
  access_tag :: string

text \<open>
  Modelled from the spec: the access control filter of section 4.4, missing from the
  sources. The configuration lists each role with its tags; a role it does not list fails
  with \<open>UnknownRoleError\<close>.
\<close>

definition allowed_tags :: "(string \<times> string list) list \<Rightarrow> string \<Rightarrow> rag_error + string list" where
  "allowed_tags cfg role = (case map_of cfg role of
      None \<Rightarrow> Inl UnknownRoleError
    | Some tags \<Rightarrow> Inr tags)"

text \<open>
  Modelled from the spec: the vector index's \<^verbatim>\<open>search\<close> of section 4.3, missing from the
  sources. The index is the list of its chunks in insertion order. The search considers
  the chunks whose tag is allowed, orders them by similarity, highest first and earlier
  insertion first among equals, and returns at most \<open>k\<close> of them with their scores.
\<close>

fun insertDesc :: "('a \<Rightarrow> 's::linorder) \<Rightarrow> 'a \<Rightarrow> 'a list \<Rightarrow> 'a list" where
  "insertDesc f x [] = [x]"
| "insertDesc f x (y # ys) = (if f y \<le> f x then x # y # ys else y # insertDesc f x ys)"

definition sortDesc :: "('a \<Rightarrow> 's::linorder) \<Rightarrow> 'a list \<Rightarrow> 'a list" where
  "sortDesc f xs = foldr (insertDesc f) xs []"

definition search ::
  "('v \<Rightarrow> 'v \<Rightarrow> 's::linorder) \<Rightarrow> 'v chunk list \<Rightarrow> 'v \<Rightarrow> nat \<Rightarrow> string list \<Rightarrow> ('v chunk \<times> 's) list" where
  "search score index query_vector k tags =
     take k (sortDesc snd
       (map (\<lambda>c. (c, score query_vector (embedding c)))
         (filter (\<lambda>c. access_tag c \<in> set tags) index)))"

text \<open>
  Modelled from the spec: the retriever of section 4.5, missing from the sources. It
  resolves the role's tags, embeds the query, searches under that filter and returns the
  results as they are; a failure of the first two steps is returned and no search runs.
\<close>

definition retrieve ::
  "(string \<times> string list) list \<Rightarrow> (string \<Rightarrow> rag_error + 'v) \<Rightarrow> ('v \<Rightarrow> 'v \<Rightarrow> 's::linorder)
     \<Rightarrow> 'v chunk list \<Rightarrow> string \<Rightarrow> string \<Rightarrow> nat \<Rightarrow> rag_error + ('v chunk \<times> 's) list" where
  "retrieve cfg embedder score index query_text role k =
     (case allowed_tags cfg role of
        Inl err \<Rightarrow> Inl err
      | Inr tags \<Rightarrow>
          (case embedder query_text of
             Inl err \<Rightarrow> Inl err
           | Inr qv \<Rightarrow> Inr (search score index qv k tags)))"

section \<open>Example inputs\<close>

text \<open>A page as it may stand after loading, a PDF of exactly 20 MB, and some responses.\<close>

definition examplePage :: page where
  "examplePage =
     \<lparr>uploadRole = ''Employee'', searchRole = ''Employee'', selectedFile = None,
      uploadText = ''Drag & drop PDF here'', uploadSubtext = ''or click to browse'',
      fileInputValue = '''', uploadBtnDisabled = False, uploadBtnLoading = False,
      uploadResultDisplay = '''', uploadResult = [], docType = ''Employee'',
      queryInput = '''', loadingDisplay = ''none'', answerDisplay = ''none'',
      answerText = '''', sourcesList = Items [], scrolls = 0,
      chips = [\<lparr>dataRole = ''Employee'', dataTarget = None, parentEl = 0, isActive = True\<rparr>,
               \<lparr>dataRole = ''HR'', dataTarget = None, parentEl = 0, isActive = False\<rparr>,
               \<lparr>dataRole = ''Employee'', dataTarget = Some ''search'', parentEl = 1, isActive = True\<rparr>,
               \<lparr>dataRole = ''Admin'', dataTarget = Some ''search'', parentEl = 1, isActive = False\<rparr>],
      toasts = [], console = [], sent = [], timers = []\<rparr>"

definition examplePdf :: js_file where
  "examplePdf = \<lparr>fname = ''doc1.pdf'', ftype = ''application/pdf'', fsize = 20 * 1024 * 1024\<rparr>"

text \<open>The example page with the example PDF selected and a question typed between blanks.\<close>

definition readyPage :: page where
  "readyPage = examplePage\<lparr>selectedFile := Some examplePdf, queryInput := ''  what is RAG? ''\<rparr>"

text \<open>
  A query of white space only (a no-break space, an ideographic space, a line separator, a
  byte order mark and a space), and a question typed between a no-break space and an
  ideographic space.
\<close>

definition blankQuery :: string where
  "blankQuery =
     [CHR 0xC2, CHR 0xA0, CHR 0xE3, CHR 0x80, CHR 0x80, CHR 0xE2, CHR 0x80, CHR 0xA8,
      CHR 0xEF, CHR 0xBB, CHR 0xBF, CHR 0x20]"

definition paddedQuery :: string where
  "paddedQuery = CHR 0xC2 # CHR 0xA0 # ''what is RAG? '' @ [CHR 0xE3, CHR 0x80, CHR 0x80]"

definition exampleUploadBody :: json where
  "exampleUploadBody =
     JObj [(''filename'', JStr ''doc1.pdf''), (''chunks_created'', JNum ''6''),
           (''text_length'', JNum ''1000''), (''doc_type'', JStr ''HR'')]"

definition exampleAnswerBody :: json where
  "exampleAnswerBody =
     JObj [(''answer'', JStr ''Twenty days.''),
           (''sources'', JArr [JObj [(''filename'', JStr ''doc1.pdf''), (''page'', JNum ''3''),
                                     (''similarity'', JNum ''0.87'')]])]"

definition exampleValidationBody :: json where
  "exampleValidationBody =
     JObj [(''detail'', JArr [JObj [(''msg'', JStr ''field required'')]])]"

definition exampleIndex :: "int chunk list" where
  "exampleIndex =
     [\<lparr>chunk_id = 0, document_id = 0, chunk_text = ''leave policy'', chunk_page = Some 1,
       embedding = 3, access_tag = ''Employee''\<rparr>,
      \<lparr>chunk_id = 1, document_id = 1, chunk_text = ''salary bands'', chunk_page = None,
       embedding = 9, access_tag = ''HR''\<rparr>,
      \<lparr>chunk_id = 2, document_id = 0, chunk_text = ''holidays'', chunk_page = Some 2,
       embedding = 5, access_tag = ''Employee''\<rparr>]"

section \<open>What the handlers leave untouched\<close>

lemma displayAnswer_sent: "sent (snd (displayAnswer v e data st)) = sent st"
  by (simp add: displayAnswer_def Let_def split: sum.splits)

lemma handleSearch_try_sent: "sent (snd (handleSearch_try v e r st)) = sent st"
  by (simp add: handleSearch_try_def displayAnswer_sent split: fetch_result.splits sum.splits)

lemma handleSearch_settle_sent: "sent (handleSearch_settle v e r st) = sent st"
  using handleSearch_try_sent [of v e r st]
  by (cases "handleSearch_try v e r st")
     (simp add: handleSearch_settle_def handleSearch_catch_def showToast_def consoleLine_def
      split: option.splits)

lemma displayUploadResult_sent: "sent (snd (displayUploadResult v e data st)) = sent st"
  by (cases v) (simp_all add: displayUploadResult_def displayUploadResult_decls_def
      displayUploadResult_176_def displayUploadResult_325_def Let_def split: sum.splits)

lemma handleUpload_try_sent: "sent (snd (handleUpload_try v e r st)) = sent st"
proof (cases r)
  case (NetworkError m)
  then show ?thesis by (simp add: handleUpload_try_def)
next
  case (Response status parsed)
  show ?thesis
  proof (cases parsed)
    case (Inl m)
    with Response show ?thesis by (simp add: handleUpload_try_def)
  next
    case (Inr data)
    let ?st0 = "showToast (case v of V1 \<Rightarrow> ''Document uploaded successfully!''
                                   | V2 \<Rightarrow> ''Upload successful!'') ''success'' st"
    obtain thrown st1 where d: "displayUploadResult v e data ?st0 = (thrown, st1)"
      by (cases "displayUploadResult v e data ?st0")
    from displayUploadResult_sent [of v e data ?st0] d
    have "sent st1 = sent st" by (simp add: showToast_def)
    with Response Inr d show ?thesis
      by (simp add: handleUpload_try_def split: sum.splits option.splits)
  qed
qed

lemma handleUpload_settle_sent: "sent (handleUpload_settle v e r st) = sent st"
  using handleUpload_try_sent [of v e r st]
  by (cases "handleUpload_try v e r st")
     (simp add: handleUpload_settle_def handleUpload_catch_def showToast_def consoleLine_def
      Let_def split: option.splits)

lemma chipTarget_search: "(chipTarget c = ''search'') = (dataTarget c = Some ''search'')"
  by (auto simp add: chipTarget_def split: option.splits)

lemma trim_example: "trim ''  what is RAG? '' = ''what is RAG?''"
  by (simp add: trim_def strip.simps whiteSpace_def)

lemma trim_padded: "trim paddedQuery = ''what is RAG?''"
  by (simp add: paddedQuery_def trim_def strip.simps whiteSpace_def)

lemma trim_blank: "trim blankQuery = []"
  by (simp add: blankQuery_def trim_def strip.simps whiteSpace_def)

section \<open>Choosing a file\<close>

text \<open>
  C1. A file handed to \<open>handleFileSelect\<close> becomes the pending upload, with its name shown
  and a success toast, exactly when its type is \<^verbatim>\<open>application/pdf\<close> and its size is at
  most 20 * 1024 * 1024 bytes; any other file leaves \<open>selectedFile\<close> and the shown name as
  they were and adds one error toast. A PDF of exactly 20 * 1024 * 1024 bytes is accepted.
\<close>

theorem handleFileSelect_accepts:
  "(let st' = handleFileSelect v (Some f) st in
      if ftype f = ''application/pdf'' \<and> fsize f \<le> 20 * 1024 * 1024
      then selectedFile st' = Some f \<and> uploadText st' = fname f \<and>
           toasts st' = toasts st @ [(''Selected: '' @ fname f, ''success'')]
      else selectedFile st' = selectedFile st \<and> uploadText st' = uploadText st \<and>
           (\<exists>m. toasts st' = toasts st @ [(m, ''error'')])) \<and>
   (toasts (handleFileSelect v (Some f) st) =
      toasts st @ [(''Selected: '' @ fname f, ''success'')]) =
     (ftype f = ''application/pdf'' \<and> fsize f \<le> 20 * 1024 * 1024) \<and>
   selectedFile (handleFileSelect v
       (Some (f\<lparr>ftype := ''application/pdf'', fsize := 20 * 1024 * 1024\<rparr>)) st) =
     Some (f\<lparr>ftype := ''application/pdf'', fsize := 20 * 1024 * 1024\<rparr>)"
  by (simp add: handleFileSelect_def showToast_def Let_def)

section \<open>The requests\<close>

text \<open>
  C3. When the query input trims to a non-empty string, a run of \<open>handleSearch\<close> sends
  exactly one request, however the \<^verbatim>\<open>fetch\<close> settles: a POST to \<^verbatim>\<open>API_BASE/api/query\<close>
  with the single header \<^verbatim>\<open>Content-Type: application/json\<close>, whose body is the JSON text of
  the object with the two fields \<^verbatim>\<open>query\<close> (the trimmed input) and \<^verbatim>\<open>role\<close> (the current
  \<open>searchRole\<close>). Trimming is JavaScript's: it takes the white space beyond ASCII off
  as well.
\<close>

theorem handleSearch_request:
  "trim (queryInput st) \<noteq> [] \<Longrightarrow>
   sent (handleSearch v e r st) = sent st @
     [\<lparr>meth = ''POST'', url = API_BASE v @ ''/api/query'',
       headers = [(''Content-Type'', ''application/json'')],
       payload = Some (JsonText (JObj [(''query'', JStr (trim (queryInput st))),
                                       (''role'', JStr (searchRole st))]))\<rparr>]"
  by (simp add: handleSearch_def Let_def handleSearch_settle_sent handleSearch_send_def
      searchRequest_def)

text \<open>
  The theorem at the example page, with a question typed between a no-break space and an
  ideographic space: the request carries the question without them.
\<close>

theorem handleSearch_request_witness:
  "\<forall>e r. sent (handleSearch V2 e r (examplePage\<lparr>queryInput := paddedQuery\<rparr>)) =
     [\<lparr>meth = ''POST'', url = ''https://mini-rag-mm0h.onrender.com/api/query'',
       headers = [(''Content-Type'', ''application/json'')],
       payload = Some (JsonText (JObj [(''query'', JStr ''what is RAG?''),
                                       (''role'', JStr ''Employee'')]))\<rparr>]"
proof (intro allI)
  fix e r
  let ?st = "examplePage\<lparr>queryInput := paddedQuery\<rparr>"
  have t: "trim (queryInput ?st) = ''what is RAG?''"
    by (simp add: trim_padded)
  then have "trim (queryInput ?st) \<noteq> []"
    by simp
  from handleSearch_request [OF this, of V2 e r] t
  show "sent (handleSearch V2 e r ?st) =
     [\<lparr>meth = ''POST'', url = ''https://mini-rag-mm0h.onrender.com/api/query'',
       headers = [(''Content-Type'', ''application/json'')],
       payload = Some (JsonText (JObj [(''query'', JStr ''what is RAG?''),
                                       (''role'', JStr ''Employee'')]))\<rparr>]"
    by (simp add: examplePage_def API_BASE_def)
qed

text \<open>
  C4. With a file selected, a run of \<open>handleUpload\<close> sends exactly one request, however
  the \<^verbatim>\<open>fetch\<close> settles: a POST to \<^verbatim>\<open>API_BASE/api/upload\<close> whose form has exactly the three
  fields \<^verbatim>\<open>file\<close> (the selected file), \<^verbatim>\<open>role\<close> (the current \<open>uploadRole\<close>) and
  \<^verbatim>\<open>doc_type\<close> (the value of the document type selector).
\<close>

theorem handleUpload_request:
  "selectedFile st = Some f \<Longrightarrow>
   sent (handleUpload v e r st) = sent st @
     [\<lparr>meth = ''POST'', url = API_BASE v @ ''/api/upload'', headers = [],
       payload = Some (FormData [(''file'', FileField f),
                                 (''role'', TextField (uploadRole st)),
                                 (''doc_type'', TextField (docType st))])\<rparr>]"
  by (simp add: handleUpload_def handleUpload_settle_sent handleUpload_send_def
      uploadRequest_def)

text \<open>The theorem at the example page with the example PDF selected and the role set to HR.\<close>

theorem handleUpload_request_witness:
  "\<forall>e r. sent (handleUpload V1 e r
             (examplePage\<lparr>selectedFile := Some examplePdf, uploadRole := ''HR''\<rparr>)) =
     [\<lparr>meth = ''POST'', url = ''https://your-backend.up.railway.app/api/upload'', headers = [],
       payload = Some (FormData [(''file'', FileField examplePdf),
                                 (''role'', TextField ''HR''),
                                 (''doc_type'', TextField ''Employee'')])\<rparr>]"
proof (intro allI)
  fix e r
  let ?st = "examplePage\<lparr>selectedFile := Some examplePdf, uploadRole := ''HR''\<rparr>"
  have "selectedFile ?st = Some examplePdf"
    by simp
  from handleUpload_request [OF this, of V1 e r]
  show "sent (handleUpload V1 e r ?st) =
     [\<lparr>meth = ''POST'', url = ''https://your-backend.up.railway.app/api/upload'', headers = [],
       payload = Some (FormData [(''file'', FileField examplePdf),
                                 (''role'', TextField ''HR''),
                                 (''doc_type'', TextField ''Employee'')])\<rparr>]"
    by (simp add: examplePage_def API_BASE_def)
qed

text \<open>
  C10. \<open>handleUpload\<close> with no file selected, and \<open>handleSearch\<close> with a query input that
  trims to the empty string (an empty input, or one of white space only, the white space
  beyond ASCII included), change nothing but the toasts, to which they add one error
  toast: no request is sent, and the module's variables and the loading and answer
  displays stay as they were.
\<close>

theorem input_guards:
  "(selectedFile st = None \<longrightarrow>
      (\<exists>m. handleUpload v e r st = st\<lparr>toasts := toasts st @ [(m, ''error'')]\<rparr>)) \<and>
   (trim (queryInput st) = [] \<longrightarrow>
      handleSearch v e r st =
        st\<lparr>toasts := toasts st @ [(''Please enter a question'', ''error'')]\<rparr>)"
  by (auto simp add: handleUpload_def handleSearch_def showToast_def Let_def)

text \<open>
  The theorem at the example page, which has no file selected and an empty query, and at
  the same page with a query of white space beyond ASCII.
\<close>

theorem input_guards_witness:
  "\<forall>e r. selectedFile examplePage = None \<and> trim (queryInput examplePage) = [] \<and>
     trim blankQuery = [] \<and>
     handleUpload V2 e r examplePage =
       examplePage\<lparr>toasts := [(''Please select a PDF first'', ''error'')]\<rparr> \<and>
     handleSearch V2 e r examplePage =
       examplePage\<lparr>toasts := [(''Please enter a question'', ''error'')]\<rparr> \<and>
     handleSearch V2 e r (examplePage\<lparr>queryInput := blankQuery\<rparr>) =
       examplePage\<lparr>queryInput := blankQuery,
                    toasts := [(''Please enter a question'', ''error'')]\<rparr> \<and>
     sent (handleUpload V2 e r examplePage) = [] \<and>
     sent (handleSearch V2 e r examplePage) = [] \<and>
     sent (handleSearch V2 e r (examplePage\<lparr>queryInput := blankQuery\<rparr>)) = []"
proof (intro allI)
  fix e r
  let ?blank = "examplePage\<lparr>queryInput := blankQuery\<rparr>"
  have f: "selectedFile examplePage = None"
    by (simp add: examplePage_def)
  have q: "trim (queryInput examplePage) = []"
    by (simp add: examplePage_def trim_def strip.simps whiteSpace_def)
  have qb: "trim (queryInput ?blank) = []"
    by (simp add: trim_blank)
  from input_guards [of examplePage V2 e r] f q
  have s: "handleSearch V2 e r examplePage =
      examplePage\<lparr>toasts := toasts examplePage @ [(''Please enter a question'', ''error'')]\<rparr>"
    by simp
  from input_guards [of ?blank V2 e r] qb
  have b: "handleSearch V2 e r ?blank =
      ?blank\<lparr>toasts := toasts ?blank @ [(''Please enter a question'', ''error'')]\<rparr>"
    by simp
  have u: "handleUpload V2 e r examplePage =
      examplePage\<lparr>toasts := toasts examplePage @ [(''Please select a PDF first'', ''error'')]\<rparr>"
    by (simp add: handleUpload_def f showToast_def)
  have t: "toasts examplePage = []" and n: "sent examplePage = []"
    by (simp_all add: examplePage_def)
  show "selectedFile examplePage = None \<and> trim (queryInput examplePage) = [] \<and>
     trim blankQuery = [] \<and>
     handleUpload V2 e r examplePage =
       examplePage\<lparr>toasts := [(''Please select a PDF first'', ''error'')]\<rparr> \<and>
     handleSearch V2 e r examplePage =
       examplePage\<lparr>toasts := [(''Please enter a question'', ''error'')]\<rparr> \<and>
     handleSearch V2 e r ?blank =
       examplePage\<lparr>queryInput := blankQuery,
                    toasts := [(''Please enter a question'', ''error'')]\<rparr> \<and>
     sent (handleUpload V2 e r examplePage) = [] \<and>
     sent (handleSearch V2 e r examplePage) = [] \<and>
     sent (handleSearch V2 e r ?blank) = []"
    by (simp add: f q s u b t n trim_blank)
qed

section \<open>Role chips\<close>

text \<open>
  C9. A click on a chip sets exactly one of the two role variables to the chip's
  \<^verbatim>\<open>data-role\<close>: \<open>searchRole\<close> when the chip's \<^verbatim>\<open>data-target\<close> is \<^verbatim>\<open>search\<close>, \<open>uploadRole\<close>
  in every other case, an absent \<^verbatim>\<open>data-target\<close> included. The other role variable and
  \<open>selectedFile\<close> keep their values.
\<close>

theorem chipClick_roles:
  "i < length (chips st) \<Longrightarrow>
   (let c = chips st ! i; st' = chipClick i st in
      (if dataTarget c = Some ''search''
       then searchRole st' = dataRole c \<and> uploadRole st' = uploadRole st
       else uploadRole st' = dataRole c \<and> searchRole st' = searchRole st) \<and>
      selectedFile st' = selectedFile st)"
  by (simp add: chipClick_def Let_def chipTarget_search)

text \<open>
  The theorem at the example page: its chip 3 targets the search and carries the role
  Admin, its chip 1 has no target and carries the role HR.
\<close>

theorem chipClick_roles_witness:
  "searchRole (chipClick 3 examplePage) = ''Admin'' \<and>
   uploadRole (chipClick 3 examplePage) = ''Employee'' \<and>
   uploadRole (chipClick 1 examplePage) = ''HR'' \<and>
   searchRole (chipClick 1 examplePage) = ''Employee'' \<and>
   selectedFile (chipClick 3 examplePage) = None \<and>
   selectedFile (chipClick 1 examplePage) = None"
proof -
  have l3: "3 < length (chips examplePage)" and l1: "1 < length (chips examplePage)"
    by (simp_all add: examplePage_def)
  have c3: "chips examplePage ! 3 =
      \<lparr>dataRole = ''Admin'', dataTarget = Some ''search'', parentEl = 1, isActive = False\<rparr>"
    and c1: "chips examplePage ! 1 =
      \<lparr>dataRole = ''HR'', dataTarget = None, parentEl = 0, isActive = False\<rparr>"
    by (simp_all add: examplePage_def)
  have v: "uploadRole examplePage = ''Employee''" "searchRole examplePage = ''Employee''"
    "selectedFile examplePage = None"
    by (simp_all add: examplePage_def)
  from chipClick_roles [OF l3] chipClick_roles [OF l1] c3 c1 v
  show ?thesis by (simp add: Let_def)
qed

section \<open>The health check\<close>

text \<open>
  C8, as amended. \<open>checkBackendHealth\<close> sends one GET to \<^verbatim>\<open>API_BASE/api/health\<close> and
  reports the back end as healthy exactly when a response arrives whose status is in the
  range 200 to 299 (\<^verbatim>\<open>response.ok\<close>), whatever its body. A response with any other status
  is reported with a warning and no toast; a failed \<^verbatim>\<open>fetch\<close> is reported as an error on
  the console and with an error toast.
\<close>

theorem checkBackendHealth_reports:
  "let st' = checkBackendHealth v r st in
     sent st' = sent st @ [healthRequest v] \<and>
     console st' = console st @
       [case r of
          Response status parsed \<Rightarrow>
            if 200 \<le> status \<and> status \<le> 299
            then (''log'', case v of V1 \<Rightarrow> ''Backend is healthy'' | V2 \<Rightarrow> ''Backend healthy'', None)
            else (''warn'', ''Backend health check failed'', None)
        | NetworkError m \<Rightarrow> (''error'', ''Cannot connect to backend:'', Some m)] \<and>
     toasts st' =
       (case r of
          Response status parsed \<Rightarrow> toasts st
        | NetworkError m \<Rightarrow> toasts st @
            [(case v of V1 \<Rightarrow> ''Warning: Backend connection issue. Check API_BASE in script.js''
                      | V2 \<Rightarrow> ''Backend connection issue'', ''error'')])"
  by (simp add: checkBackendHealth_def Let_def ok_def consoleLine_def showToast_def
      split: fetch_result.splits)

text \<open>
  The claim as written takes status 200 alone for healthy. A response with status 204
  (which has no body, so that reading it as JSON would fail) is reported as healthy too.
\<close>

theorem checkBackendHealth_204_counterexample:
  "console (checkBackendHealth V2 (Response 204 (Inl ''Unexpected end of JSON input''))
      examplePage) = [(''log'', ''Backend healthy'', None)]"
  by (simp add: checkBackendHealth_def Let_def ok_def consoleLine_def examplePage_def)

section \<open>Responses that are not ok\<close>

lemma trim_ready: "trim (queryInput readyPage) = ''what is RAG?''"
  by (simp add: readyPage_def trim_example)

lemma ready_fields:
  "selectedFile readyPage = Some examplePdf" "toasts readyPage = []"
  "answerText readyPage = ''''" "sourcesList readyPage = Items []" "timers readyPage = []"
  by (simp_all add: readyPage_def examplePage_def)

lemma thrownForDetail_string:
  "map_of kvs ''detail'' = Some (JStr d) \<Longrightarrow> d \<noteq> [] \<Longrightarrow> thrownForDetail e g (JObj kvs) = d"
  by (simp add: thrownForDetail_def andThen_def toStrV_def)

lemma thrownForDetail_falsy:
  "\<not> truthy (map_of kvs ''detail'') \<Longrightarrow> thrownForDetail e g (JObj kvs) = g"
  by (simp add: thrownForDetail_def andThen_def)

lemma thrownForDetail_truthy:
  "truthy (map_of kvs ''detail'') \<Longrightarrow> toStrV e (map_of kvs ''detail'') = Inr m \<Longrightarrow>
   thrownForDetail e g (JObj kvs) = m"
  by (simp add: thrownForDetail_def andThen_def)

lemma handleUpload_not_ok:
  "\<not> ok status \<Longrightarrow> selectedFile st = Some f \<Longrightarrow>
   handleUpload v e (Response status parsed) st =
     (handleUpload_catch v
        (case parsed of Inl m \<Rightarrow> m | Inr data \<Rightarrow> thrownForDetail e ''Upload failed'' data)
        (handleUpload_send v f st))\<lparr>uploadBtnDisabled := False, uploadBtnLoading := False\<rparr>"
  by (simp add: handleUpload_def handleUpload_settle_def handleUpload_try_def split: sum.splits)

lemma handleSearch_not_ok:
  "\<not> ok status \<Longrightarrow> trim (queryInput st) \<noteq> [] \<Longrightarrow>
   handleSearch v e (Response status parsed) st =
     handleSearch_catch v
       (case parsed of Inl m \<Rightarrow> m | Inr data \<Rightarrow> thrownForDetail e ''Search failed'' data)
       (handleSearch_send v (trim (queryInput st)) st)"
  by (simp add: handleSearch_def handleSearch_settle_def handleSearch_try_def Let_def
      split: sum.splits)

text \<open>
  C5, as amended. For an upload (with a file selected) and for a search (with a query that
  is not empty) whose response has a status outside 200 to 299, the run adds exactly one
  toast, an error toast, and renders no success result: the upload result stays cleared
  and no reset timer is set, the answer container stays hidden and the answer and the
  sources keep what they showed. The toast's message is the body's \<^verbatim>\<open>detail\<close> when that
  is a non-empty string; it is the generic message (\<^verbatim>\<open>Upload failed\<close>, \<^verbatim>\<open>Search failed\<close>)
  when the body is an object whose \<^verbatim>\<open>detail\<close> is absent or counts as false; it is the
  string JavaScript converts \<^verbatim>\<open>detail\<close> to when \<^verbatim>\<open>detail\<close> is another value that counts as
  true and the string is not empty; and it is the message of the parse error when the body
  is not JSON and that message is not empty.
\<close>

theorem error_responses:
  assumes "\<not> ok status"
  shows "(selectedFile st = Some f \<longrightarrow>
           (let u = handleUpload v e (Response status parsed) st in
              (\<exists>m. toasts u = toasts st @ [(m, ''error'')]) \<and>
              uploadResult u = [] \<and> timers u = timers st \<and>
              (\<forall>kvs d. parsed = Inr (JObj kvs) \<and> map_of kvs ''detail'' = Some (JStr d) \<and>
                   d \<noteq> [] \<longrightarrow>
                 toasts u = toasts st @ [(d, ''error'')]) \<and>
              (\<forall>kvs. parsed = Inr (JObj kvs) \<and> \<not> truthy (map_of kvs ''detail'') \<longrightarrow>
                 toasts u = toasts st @ [(''Upload failed'', ''error'')]) \<and>
              (\<forall>kvs m. parsed = Inr (JObj kvs) \<and> truthy (map_of kvs ''detail'') \<and>
                   toStrV e (map_of kvs ''detail'') = Inr m \<and> m \<noteq> [] \<longrightarrow>
                 toasts u = toasts st @ [(m, ''error'')]) \<and>
              (\<forall>m. parsed = Inl m \<and> m \<noteq> [] \<longrightarrow>
                 toasts u = toasts st @ [(m, ''error'')]))) \<and>
         (trim (queryInput st) \<noteq> [] \<longrightarrow>
           (let s = handleSearch v e (Response status parsed) st in
              (\<exists>m. toasts s = toasts st @ [(m, ''error'')]) \<and>
              answerDisplay s = ''none'' \<and> loadingDisplay s = ''none'' \<and>
              answerText s = answerText st \<and> sourcesList s = sourcesList st \<and>
              (\<forall>kvs d. parsed = Inr (JObj kvs) \<and> map_of kvs ''detail'' = Some (JStr d) \<and>
                   d \<noteq> [] \<longrightarrow>
                 toasts s = toasts st @ [(d, ''error'')]) \<and>
              (\<forall>kvs. parsed = Inr (JObj kvs) \<and> \<not> truthy (map_of kvs ''detail'') \<longrightarrow>
                 toasts s = toasts st @ [(''Search failed'', ''error'')]) \<and>
              (\<forall>kvs m. parsed = Inr (JObj kvs) \<and> truthy (map_of kvs ''detail'') \<and>
                   toStrV e (map_of kvs ''detail'') = Inr m \<and> m \<noteq> [] \<longrightarrow>
                 toasts s = toasts st @ [(m, ''error'')]) \<and>
              (\<forall>m. parsed = Inl m \<and> m \<noteq> [] \<longrightarrow>
                 toasts s = toasts st @ [(m, ''error'')])))"
proof (intro conjI impI)
  assume sel: "selectedFile st = Some f"
  let ?mu = "case parsed of Inl m \<Rightarrow> m | Inr data \<Rightarrow> thrownForDetail e ''Upload failed'' data"
  let ?u = "handleUpload v e (Response status parsed) st"
  have u: "?u = (handleUpload_catch v ?mu (handleUpload_send v f st))
      \<lparr>uploadBtnDisabled := False, uploadBtnLoading := False\<rparr>"
    using assms sel by (simp add: handleUpload_not_ok)
  have tu: "toasts ?u = toasts st @
      [(if ?mu \<noteq> [] then ?mu
        else case v of V1 \<Rightarrow> ''Upload failed. Please try again.'' | V2 \<Rightarrow> ''Upload failed'',
        ''error'')]"
    by (simp add: u handleUpload_catch_def handleUpload_send_def showToast_def consoleLine_def)
  have fu: "uploadResult ?u = [] \<and> timers ?u = timers st"
    by (simp add: u handleUpload_catch_def handleUpload_send_def showToast_def consoleLine_def)
  have a: "\<exists>m. toasts ?u = toasts st @ [(m, ''error'')]"
    using tu by blast
  have c: "toasts ?u = toasts st @ [(d, ''error'')]"
    if "parsed = Inr (JObj kvs)" "map_of kvs ''detail'' = Some (JStr d)" "d \<noteq> []" for kvs d
    using that tu by (simp add: thrownForDetail_string)
  have d: "toasts ?u = toasts st @ [(''Upload failed'', ''error'')]"
    if "parsed = Inr (JObj kvs)" "\<not> truthy (map_of kvs ''detail'')" for kvs
    using that tu by (simp add: thrownForDetail_falsy)
  have g: "toasts ?u = toasts st @ [(m, ''error'')]"
    if "parsed = Inr (JObj kvs)" "truthy (map_of kvs ''detail'')"
      "toStrV e (map_of kvs ''detail'') = Inr m" "m \<noteq> []" for kvs m
    using that tu by (simp add: thrownForDetail_truthy)
  have h: "toasts ?u = toasts st @ [(m, ''error'')]" if "parsed = Inl m" "m \<noteq> []" for m
    using that tu by simp
  show "let u = ?u in
      (\<exists>m. toasts u = toasts st @ [(m, ''error'')]) \<and>
      uploadResult u = [] \<and> timers u = timers st \<and>
      (\<forall>kvs d. parsed = Inr (JObj kvs) \<and> map_of kvs ''detail'' = Some (JStr d) \<and> d \<noteq> [] \<longrightarrow>
         toasts u = toasts st @ [(d, ''error'')]) \<and>
      (\<forall>kvs. parsed = Inr (JObj kvs) \<and> \<not> truthy (map_of kvs ''detail'') \<longrightarrow>
         toasts u = toasts st @ [(''Upload failed'', ''error'')]) \<and>
      (\<forall>kvs m. parsed = Inr (JObj kvs) \<and> truthy (map_of kvs ''detail'') \<and>
           toStrV e (map_of kvs ''detail'') = Inr m \<and> m \<noteq> [] \<longrightarrow>
         toasts u = toasts st @ [(m, ''error'')]) \<and>
      (\<forall>m. parsed = Inl m \<and> m \<noteq> [] \<longrightarrow> toasts u = toasts st @ [(m, ''error'')])"
    unfolding Let_def using a fu c d g h by blast
next
  assume q: "trim (queryInput st) \<noteq> []"
  let ?ms = "case parsed of Inl m \<Rightarrow> m | Inr data \<Rightarrow> thrownForDetail e ''Search failed'' data"
  let ?s = "handleSearch v e (Response status parsed) st"
  have s: "?s = handleSearch_catch v ?ms (handleSearch_send v (trim (queryInput st)) st)"
    using assms q by (simp add: handleSearch_not_ok)
  have ts: "toasts ?s = toasts st @
      [(if ?ms \<noteq> [] then ?ms
        else case v of V1 \<Rightarrow> ''Search failed. Please try again.'' | V2 \<Rightarrow> ''Search failed'',
        ''error'')]"
    by (simp add: s handleSearch_catch_def handleSearch_send_def showToast_def consoleLine_def)
  have fs: "answerDisplay ?s = ''none'' \<and> loadingDisplay ?s = ''none'' \<and>
      answerText ?s = answerText st \<and> sourcesList ?s = sourcesList st"
    by (simp add: s handleSearch_catch_def handleSearch_send_def showToast_def consoleLine_def)
  have b: "\<exists>m. toasts ?s = toasts st @ [(m, ''error'')]"
    using ts by blast
  have c: "toasts ?s = toasts st @ [(d, ''error'')]"
    if "parsed = Inr (JObj kvs)" "map_of kvs ''detail'' = Some (JStr d)" "d \<noteq> []" for kvs d
    using that ts by (simp add: thrownForDetail_string)
  have d: "toasts ?s = toasts st @ [(''Search failed'', ''error'')]"
    if "parsed = Inr (JObj kvs)" "\<not> truthy (map_of kvs ''detail'')" for kvs
    using that ts by (simp add: thrownForDetail_falsy)
  have g: "toasts ?s = toasts st @ [(m, ''error'')]"
    if "parsed = Inr (JObj kvs)" "truthy (map_of kvs ''detail'')"
      "toStrV e (map_of kvs ''detail'') = Inr m" "m \<noteq> []" for kvs m
    using that ts by (simp add: thrownForDetail_truthy)
  have h: "toasts ?s = toasts st @ [(m, ''error'')]" if "parsed = Inl m" "m \<noteq> []" for m
    using that ts by simp
  show "let s = ?s in
      (\<exists>m. toasts s = toasts st @ [(m, ''error'')]) \<and>
      answerDisplay s = ''none'' \<and> loadingDisplay s = ''none'' \<and>
      answerText s = answerText st \<and> sourcesList s = sourcesList st \<and>
      (\<forall>kvs d. parsed = Inr (JObj kvs) \<and> map_of kvs ''detail'' = Some (JStr d) \<and> d \<noteq> [] \<longrightarrow>
         toasts s = toasts st @ [(d, ''error'')]) \<and>
      (\<forall>kvs. parsed = Inr (JObj kvs) \<and> \<not> truthy (map_of kvs ''detail'') \<longrightarrow>
         toasts s = toasts st @ [(''Search failed'', ''error'')]) \<and>
      (\<forall>kvs m. parsed = Inr (JObj kvs) \<and> truthy (map_of kvs ''detail'') \<and>
           toStrV e (map_of kvs ''detail'') = Inr m \<and> m \<noteq> [] \<longrightarrow>
         toasts s = toasts st @ [(m, ''error'')]) \<and>
      (\<forall>m. parsed = Inl m \<and> m \<noteq> [] \<longrightarrow> toasts s = toasts st @ [(m, ''error'')])"
    unfolding Let_def using b fs c d g h by blast
qed

text \<open>
  The theorem at the ready page: a 404 whose \<^verbatim>\<open>detail\<close> is \<^verbatim>\<open>Not found\<close>, and a 500 whose
  body is the empty object.
\<close>

theorem error_responses_witness:
  "\<forall>e. toasts (handleUpload V2 e (Response 404 (Inr (JObj [(''detail'', JStr ''Not found'')])))
            readyPage) = [(''Not found'', ''error'')] \<and>
        toasts (handleSearch V2 e (Response 404 (Inr (JObj [(''detail'', JStr ''Not found'')])))
            readyPage) = [(''Not found'', ''error'')] \<and>
        toasts (handleUpload V1 e (Response 500 (Inr (JObj []))) readyPage)
          = [(''Upload failed'', ''error'')] \<and>
        toasts (handleSearch V1 e (Response 500 (Inr (JObj []))) readyPage)
          = [(''Search failed'', ''error'')] \<and>
        uploadResult (handleUpload V1 e (Response 500 (Inr (JObj []))) readyPage) = [] \<and>
        answerDisplay (handleSearch V1 e (Response 500 (Inr (JObj []))) readyPage) = ''none''"
proof (intro allI)
  fix e
  let ?nf = "Response 404 (Inr (JObj [(''detail'', JStr ''Not found'')]))"
  let ?ise = "Response 500 (Inr (JObj []))"
  have n404: "\<not> ok 404" and n500: "\<not> ok 500"
    by (simp_all add: ok_def)
  have q: "trim (queryInput readyPage) \<noteq> []"
    by (simp add: trim_ready)
  note a = error_responses [OF n404, of readyPage examplePdf V2 e
      "Inr (JObj [(''detail'', JStr ''Not found'')])", unfolded Let_def]
  note b = error_responses [OF n500, of readyPage examplePdf V1 e "Inr (JObj [])",
      unfolded Let_def]
  note au = a [THEN conjunct1, THEN mp, OF ready_fields(1)]
  note as = a [THEN conjunct2, THEN mp, OF q]
  note bu = b [THEN conjunct1, THEN mp, OF ready_fields(1)]
  note bs = b [THEN conjunct2, THEN mp, OF q]
  have d: "Inr (JObj [(''detail'', JStr ''Not found'')]) = Inr (JObj [(''detail'', JStr ''Not found'')]) \<and>
      map_of [(''detail'', JStr ''Not found'')] ''detail'' = Some (JStr ''Not found'') \<and>
      ''Not found'' \<noteq> []"
    by simp
  have f: "Inr (JObj []) = Inr (JObj []) \<and> \<not> truthy (map_of ([] :: (string \<times> json) list) ''detail'')"
    by simp
  have 1: "toasts (handleUpload V2 e ?nf readyPage) = toasts readyPage @ [(''Not found'', ''error'')]"
    by (rule au [THEN conjunct2, THEN conjunct2, THEN conjunct2, THEN conjunct1, rule_format, OF d])
  have 2: "toasts (handleSearch V2 e ?nf readyPage) = toasts readyPage @ [(''Not found'', ''error'')]"
    by (rule as [THEN conjunct2, THEN conjunct2, THEN conjunct2, THEN conjunct2, THEN conjunct2,
          THEN conjunct1, rule_format, OF d])
  have 3: "toasts (handleUpload V1 e ?ise readyPage) = toasts readyPage @ [(''Upload failed'', ''error'')]"
    by (rule bu [THEN conjunct2, THEN conjunct2, THEN conjunct2, THEN conjunct2, THEN conjunct1,
          rule_format, OF f])
  have 4: "toasts (handleSearch V1 e ?ise readyPage) = toasts readyPage @ [(''Search failed'', ''error'')]"
    by (rule bs [THEN conjunct2, THEN conjunct2, THEN conjunct2, THEN conjunct2, THEN conjunct2,
          THEN conjunct2, THEN conjunct1, rule_format, OF f])
  have 5: "uploadResult (handleUpload V1 e ?ise readyPage) = []"
    by (rule bu [THEN conjunct2, THEN conjunct1])
  have 6: "answerDisplay (handleSearch V1 e ?ise readyPage) = ''none''"
    by (rule bs [THEN conjunct2, THEN conjunct1])
  from 1 2 3 4 5 6
  show "toasts (handleUpload V2 e ?nf readyPage) = [(''Not found'', ''error'')] \<and>
        toasts (handleSearch V2 e ?nf readyPage) = [(''Not found'', ''error'')] \<and>
        toasts (handleUpload V1 e ?ise readyPage) = [(''Upload failed'', ''error'')] \<and>
        toasts (handleSearch V1 e ?ise readyPage) = [(''Search failed'', ''error'')] \<and>
        uploadResult (handleUpload V1 e ?ise readyPage) = [] \<and>
        answerDisplay (handleSearch V1 e ?ise readyPage) = ''none''"
    by (simp add: ready_fields)
qed

text \<open>
  The claim as written has the generic message whenever \<^verbatim>\<open>detail\<close> is not a non-empty
  string. A 422 whose \<^verbatim>\<open>detail\<close> is a list of validation errors is shown as
  \<^verbatim>\<open>[object Object]\<close>, which is neither the \<^verbatim>\<open>detail\<close> nor a generic message.
\<close>

theorem error_detail_counterexample:
  "\<forall>e. toasts (handleSearch V2 e (Response 422 (Inr exampleValidationBody)) readyPage)
          = [(''[object Object]'', ''error'')] \<and>
        toasts (handleUpload V2 e (Response 422 (Inr exampleValidationBody)) readyPage)
          = [(''[object Object]'', ''error'')]"
  by (simp add: handleSearch_def handleSearch_settle_def handleSearch_try_def handleSearch_catch_def
      handleSearch_send_def handleUpload_def handleUpload_settle_def handleUpload_try_def
      handleUpload_catch_def handleUpload_send_def thrownForDetail_def andThen_def toStrV_def
      showToast_def consoleLine_def ok_def Let_def trim_ready ready_fields
      exampleValidationBody_def)

section \<open>The states of a search\<close>

lemma displayAnswer_effect:
  assumes "displayAnswer v e data st = (thrown, st1)"
  shows "loadingDisplay st1 = ''none'' \<and> answerDisplay st1 = ''block'' \<and> toasts st1 = toasts st"
    and "thrown = None \<Longrightarrow>
      andThen (readProp e data ''answer'') (textContentOf e) = Inr (answerText st1) \<and>
      andThen (readProp e data ''sources'') (sourcesView v e) = Inr (sourcesList st1)"
  using assms by (auto simp add: displayAnswer_def Let_def split: sum.splits)

lemma isStr_iff: "isStr v = (\<exists>s. v = Some (JStr s))"
  by (cases v rule: isStr.cases) simp_all

lemma isNum_iff: "isNum v = (\<exists>n. v = Some (JNum n))"
  by (cases v rule: isNum.cases) simp_all

lemma renderSource_shaped: "sourceShaped src \<Longrightarrow> \<exists>i. renderSource e src = Inr i"
  by (cases src)
     (auto simp add: isStr_iff isNum_iff renderSource_def interpolate_def andThen_def toStrV_def
        percent_def toNumber_def)

lemma renderSources_shaped: "list_all sourceShaped srcs \<Longrightarrow> \<exists>is. renderSources e srcs = Inr is"
proof (induction srcs)
  case Nil
  then show ?case by simp
next
  case (Cons src srcs)
  then obtain i "is" where "renderSource e src = Inr i" "renderSources e srcs = Inr is"
    using renderSource_shaped [of src e] by auto
  then show ?case by (simp add: andThen_def)
qed

lemma sourcesView_shaped:
  "isSourceArray s \<Longrightarrow> \<exists>view. sourcesView v e s = Inr view"
proof (cases s rule: isSourceArray.cases)
  case (1 srcs)
  assume "isSourceArray s"
  with 1 renderSources_shaped [of srcs e] show ?thesis
    by (auto simp add: sourcesView_def lengthPositive_def andThen_def Let_def)
qed simp_all

lemma displayAnswer_shaped: "answerShaped data \<Longrightarrow> fst (displayAnswer v e data st) = None"
proof (cases data)
  case (JObj kvs)
  assume "answerShaped data"
  with JObj obtain ans where a: "map_of kvs ''answer'' = Some (JStr ans)"
    and b: "isSourceArray (map_of kvs ''sources'')"
    by (auto simp add: isStr_iff)
  from sourcesView_shaped [OF b, of v e] obtain view where
    "sourcesView v e (map_of kvs ''sources'') = Inr view" by blast
  with JObj a show ?thesis
    by (simp add: displayAnswer_def Let_def andThen_def textContentOf_def)
qed simp_all

lemma handleSearch_catch_effect:
  "loadingDisplay (handleSearch_catch v m st) = ''none'' \<and>
   answerDisplay (handleSearch_catch v m st) = answerDisplay st \<and>
   answerText (handleSearch_catch v m st) = answerText st \<and>
   sourcesList (handleSearch_catch v m st) = sourcesList st \<and>
   (\<exists>m'. toasts (handleSearch_catch v m st) = toasts st @ [(m', ''error'')])"
  by (simp add: handleSearch_catch_def showToast_def consoleLine_def)

lemma handleSearch_send_effect:
  "loadingDisplay (handleSearch_send v q st) = ''block'' \<and>
   answerDisplay (handleSearch_send v q st) = ''none'' \<and>
   toasts (handleSearch_send v q st) = toasts st"
  by (simp add: handleSearch_send_def)

lemma handleSearch_settle_NetworkError:
  "handleSearch_settle v e (NetworkError m) st = handleSearch_catch v m st"
  by (simp add: handleSearch_settle_def handleSearch_try_def)

lemma handleSearch_try_cases:
  "(\<exists>status data. r = Response status (Inr data) \<and> ok status) \<or>
   ((\<exists>m. handleSearch_try v e r st = (Some m, st)) \<and>
    \<not> (\<exists>status data. r = Response status (Inr data) \<and> ok status))"
proof (cases r)
  case (NetworkError m)
  then show ?thesis by (simp add: handleSearch_try_def)
next
  case (Response status parsed)
  show ?thesis
  proof (cases parsed)
    case (Inl m)
    with Response show ?thesis by (simp add: handleSearch_try_def)
  next
    case (Inr data)
    with Response show ?thesis by (cases "ok status") (simp_all add: handleSearch_try_def)
  qed
qed

lemma handleSearch_settle_states:
  "loadingDisplay (handleSearch_settle v e r st) = ''none'' \<and>
   (toasts (handleSearch_settle v e r st) = toasts st \<or>
    (\<exists>m. toasts (handleSearch_settle v e r st) = toasts st @ [(m, ''error'')])) \<and>
   (toasts (handleSearch_settle v e r st) = toasts st \<longrightarrow>
      answerDisplay (handleSearch_settle v e r st) = ''block'' \<and>
      (\<exists>status data. r = Response status (Inr data) \<and> ok status \<and>
         andThen (readProp e data ''answer'') (textContentOf e)
           = Inr (answerText (handleSearch_settle v e r st)) \<and>
         andThen (readProp e data ''sources'') (sourcesView v e)
           = Inr (sourcesList (handleSearch_settle v e r st)))) \<and>
   (answerDisplay (handleSearch_settle v e r st) = ''none'' \<longrightarrow>
      (\<exists>m. toasts (handleSearch_settle v e r st) = toasts st @ [(m, ''error'')])) \<and>
   (\<forall>status data. r = Response status (Inr data) \<and> ok status \<and> answerShaped data \<longrightarrow>
      toasts (handleSearch_settle v e r st) = toasts st) \<and>
   (\<not> (\<exists>status data. r = Response status (Inr data) \<and> ok status) \<longrightarrow>
      (\<exists>m. toasts (handleSearch_settle v e r st) = toasts st @ [(m, ''error'')]) \<and>
      answerDisplay (handleSearch_settle v e r st) = answerDisplay st \<and>
      answerText (handleSearch_settle v e r st) = answerText st \<and>
      sourcesList (handleSearch_settle v e r st) = sourcesList st)"
proof -
  let ?s = "handleSearch_settle v e r st"
  from handleSearch_try_cases [of r v e st]
  consider (shown) status data where "r = Response status (Inr data)" "ok status"
    | (failed) m where "handleSearch_try v e r st = (Some m, st)"
        "\<not> (\<exists>status data. r = Response status (Inr data) \<and> ok status)"
    by blast
  then show ?thesis
  proof cases
    case shown
    obtain thrown st2 where d: "displayAnswer v e data st = (thrown, st2)"
      by (cases "displayAnswer v e data st")
    note eff = displayAnswer_effect [OF d]
    have shaped: "thrown = None" if "answerShaped data"
      using displayAnswer_shaped [OF that, of v e st] d by simp
    show ?thesis
    proof (cases thrown)
      case None
      with shown d have "?s = st2"
        by (simp add: handleSearch_settle_def handleSearch_try_def)
      with eff None shown show ?thesis by auto
    next
      case (Some m)
      with shown d have "?s = handleSearch_catch v m st2"
        by (simp add: handleSearch_settle_def handleSearch_try_def)
      with eff(1) Some shown shaped handleSearch_catch_effect [of v m st2]
      show ?thesis by auto
    qed
  next
    case failed
    then have "?s = handleSearch_catch v m st"
      by (simp add: handleSearch_settle_def)
    with failed(2) handleSearch_catch_effect [of v m st]
    show ?thesis by auto
  qed
qed

text \<open>
  C6, as amended. A run of \<open>handleSearch\<close> that sends a request first shows the loading
  state and hides the answer container. When its \<^verbatim>\<open>fetch\<close> has settled, on the page \<open>st'\<close>
  as it is then, whatever other handlers have run meanwhile, the run ends with the
  loading state hidden and at most one toast added, an error toast. When it added no
  toast, the answer container is visible and shows the answer and the sources of the
  response, which had a status from 200 to 299; a response with such a status and a body
  of the documented shape ends this way. A failed \<^verbatim>\<open>fetch\<close>, a body that is not JSON and a
  response with another status add an error toast and leave the answer container, the
  answer and the sources as they were when the \<^verbatim>\<open>fetch\<close> settled: the answer container
  is still hidden when nothing ran between the request and its settling. When the answer
  container ends hidden, an error toast was shown.
\<close>

theorem handleSearch_states:
  assumes q: "trim (queryInput st) \<noteq> []"
  shows "let st1 = handleSearch_send v (trim (queryInput st)) st in
     loadingDisplay st1 = ''block'' \<and> answerDisplay st1 = ''none'' \<and> toasts st1 = toasts st \<and>
     handleSearch v e r st = handleSearch_settle v e r st1 \<and>
     (\<not> (\<exists>status data. r = Response status (Inr data) \<and> ok status) \<longrightarrow>
        answerDisplay (handleSearch v e r st) = ''none'') \<and>
     (\<forall>st'. let s = handleSearch_settle v e r st' in
        loadingDisplay s = ''none'' \<and>
        (toasts s = toasts st' \<or> (\<exists>m. toasts s = toasts st' @ [(m, ''error'')])) \<and>
        (toasts s = toasts st' \<longrightarrow>
           answerDisplay s = ''block'' \<and>
           (\<exists>status data. r = Response status (Inr data) \<and> ok status \<and>
              andThen (readProp e data ''answer'') (textContentOf e) = Inr (answerText s) \<and>
              andThen (readProp e data ''sources'') (sourcesView v e) = Inr (sourcesList s))) \<and>
        (answerDisplay s = ''none'' \<longrightarrow> (\<exists>m. toasts s = toasts st' @ [(m, ''error'')])) \<and>
        (\<forall>status data. r = Response status (Inr data) \<and> ok status \<and> answerShaped data \<longrightarrow>
           toasts s = toasts st') \<and>
        (\<not> (\<exists>status data. r = Response status (Inr data) \<and> ok status) \<longrightarrow>
           (\<exists>m. toasts s = toasts st' @ [(m, ''error'')]) \<and>
           answerDisplay s = answerDisplay st' \<and>
           answerText s = answerText st' \<and>
           sourcesList s = sourcesList st'))"
proof -
  let ?st1 = "handleSearch_send v (trim (queryInput st)) st"
  have s: "handleSearch v e r st = handleSearch_settle v e r ?st1"
    using q by (simp add: handleSearch_def Let_def)
  note send = handleSearch_send_effect [of v "trim (queryInput st)" st]
  from send have send1: "loadingDisplay ?st1 = ''block''" and send2: "answerDisplay ?st1 = ''none''"
    and send3: "toasts ?st1 = toasts st"
    by simp_all
  have alone: "\<not> (\<exists>status data. r = Response status (Inr data) \<and> ok status) \<longrightarrow>
      answerDisplay (handleSearch v e r st) = ''none''"
  proof
    assume "\<not> (\<exists>status data. r = Response status (Inr data) \<and> ok status)"
    with handleSearch_settle_states [of v e r ?st1]
    have "answerDisplay (handleSearch_settle v e r ?st1) = answerDisplay ?st1"
      by blast
    with s send2 show "answerDisplay (handleSearch v e r st) = ''none''"
      by simp
  qed
  have settled: "\<forall>st'. let s = handleSearch_settle v e r st' in
        loadingDisplay s = ''none'' \<and>
        (toasts s = toasts st' \<or> (\<exists>m. toasts s = toasts st' @ [(m, ''error'')])) \<and>
        (toasts s = toasts st' \<longrightarrow>
           answerDisplay s = ''block'' \<and>
           (\<exists>status data. r = Response status (Inr data) \<and> ok status \<and>
              andThen (readProp e data ''answer'') (textContentOf e) = Inr (answerText s) \<and>
              andThen (readProp e data ''sources'') (sourcesView v e) = Inr (sourcesList s))) \<and>
        (answerDisplay s = ''none'' \<longrightarrow> (\<exists>m. toasts s = toasts st' @ [(m, ''error'')])) \<and>
        (\<forall>status data. r = Response status (Inr data) \<and> ok status \<and> answerShaped data \<longrightarrow>
           toasts s = toasts st') \<and>
        (\<not> (\<exists>status data. r = Response status (Inr data) \<and> ok status) \<longrightarrow>
           (\<exists>m. toasts s = toasts st' @ [(m, ''error'')]) \<and>
           answerDisplay s = answerDisplay st' \<and>
           answerText s = answerText st' \<and>
           sourcesList s = sourcesList st')"
    unfolding Let_def by (rule allI) (rule handleSearch_settle_states)
  show ?thesis
    unfolding Let_def
    by (rule conjI [OF send1], rule conjI [OF send2], rule conjI [OF send3], rule conjI [OF s],
        rule conjI [OF alone])
       (rule settled [unfolded Let_def])
qed

text \<open>
  The theorem at the ready page. A run with nothing in between, for a response of the
  documented shape with one source, ends with the answer shown and no toast. Two searches
  started one after the other, the first answered before the second fails: the second
  run ends with an error toast and the answer container visible, as the first left it.
\<close>

theorem handleSearch_states_witness:
  "\<forall>e. (let s = handleSearch V2 e (Response 200 (Inr exampleAnswerBody)) readyPage in
          loadingDisplay s = ''none'' \<and> answerDisplay s = ''block'' \<and> toasts s = [] \<and>
          answerText s = ''Twenty days.'' \<and>
          sourcesList s = Items [\<lparr>srcName = ''doc1.pdf'', srcPage = Some ''3'',
                                  srcSimilarity = pctOfNumber e ''0.87''\<rparr>]) \<and>
        (let both = handleSearch_send V2 ''what is RAG?''
                      (handleSearch_send V2 ''what is RAG?'' readyPage);
             first = handleSearch_settle V2 e (Response 200 (Inr exampleAnswerBody)) both;
             second = handleSearch_settle V2 e (NetworkError ''Failed to fetch'') first in
          loadingDisplay second = ''none'' \<and> answerDisplay second = ''block'' \<and>
          toasts second = [(''Failed to fetch'', ''error'')] \<and>
          answerText second = ''Twenty days.'')"
proof (intro allI conjI)
  fix e
  let ?r = "Response 200 (Inr exampleAnswerBody)"
  let ?st1 = "handleSearch_send V2 (trim (queryInput readyPage)) readyPage"
  let ?s = "handleSearch V2 e ?r readyPage"
  have q: "trim (queryInput readyPage) \<noteq> []"
    by (simp add: trim_ready)
  note t = handleSearch_states [OF q, of V2 e ?r, unfolded Let_def]
  note comp = t [THEN conjunct2, THEN conjunct2, THEN conjunct2, THEN conjunct1]
  note sent_toasts = t [THEN conjunct2, THEN conjunct2, THEN conjunct1]
  note settled = t [THEN conjunct2, THEN conjunct2, THEN conjunct2, THEN conjunct2,
      THEN conjunct2, THEN spec, of ?st1, folded comp]
  have shaped: "?r = Response 200 (Inr exampleAnswerBody) \<and> ok 200 \<and> answerShaped exampleAnswerBody"
    by (simp add: exampleAnswerBody_def ok_def)
  note l = settled [THEN conjunct1]
  have nt: "toasts ?s = toasts ?st1"
    by (rule settled [THEN conjunct2, THEN conjunct2, THEN conjunct2, THEN conjunct2,
          THEN conjunct1, rule_format, OF shaped])
  note shown = settled [THEN conjunct2, THEN conjunct2, THEN conjunct1, THEN mp, OF nt]
  note b = shown [THEN conjunct1]
  from shown have "andThen (readProp e exampleAnswerBody ''answer'') (textContentOf e)
      = Inr (answerText ?s)"
    and "andThen (readProp e exampleAnswerBody ''sources'') (sourcesView V2 e)
      = Inr (sourcesList ?s)"
    by auto
  then have a: "answerText ?s = ''Twenty days.''"
    and c: "sourcesList ?s = Items [\<lparr>srcName = ''doc1.pdf'', srcPage = Some ''3'',
                                  srcSimilarity = pctOfNumber e ''0.87''\<rparr>]"
    by (simp_all add: exampleAnswerBody_def andThen_def textContentOf_def sourcesView_def
        lengthPositive_def renderSource_def interpolate_def toStrV_def percent_def toNumber_def
        Let_def)
  from l b nt sent_toasts a c show "let s = ?s in
          loadingDisplay s = ''none'' \<and> answerDisplay s = ''block'' \<and> toasts s = [] \<and>
          answerText s = ''Twenty days.'' \<and>
          sourcesList s = Items [\<lparr>srcName = ''doc1.pdf'', srcPage = Some ''3'',
                                  srcSimilarity = pctOfNumber e ''0.87''\<rparr>]"
    by (simp add: ready_fields)
next
  fix e
  let ?both = "handleSearch_send V2 ''what is RAG?'' (handleSearch_send V2 ''what is RAG?'' readyPage)"
  let ?first = "handleSearch_settle V2 e (Response 200 (Inr exampleAnswerBody)) ?both"
  let ?f = "NetworkError ''Failed to fetch''"
  let ?second = "handleSearch_settle V2 e ?f ?first"
  have q: "trim (queryInput readyPage) \<noteq> []"
    by (simp add: trim_ready)
  have first: "answerDisplay ?first = ''block''" "toasts ?first = []"
    "answerText ?first = ''Twenty days.''"
    by (simp_all add: handleSearch_settle_def handleSearch_try_def handleSearch_send_def
        displayAnswer_def ok_def exampleAnswerBody_def andThen_def textContentOf_def
        sourcesView_def lengthPositive_def renderSource_def interpolate_def toStrV_def
        percent_def toNumber_def Let_def ready_fields)
  note t = handleSearch_states [OF q, of V2 e ?f, unfolded Let_def]
  note settled = t [THEN conjunct2, THEN conjunct2, THEN conjunct2, THEN conjunct2,
      THEN conjunct2, THEN spec, of ?first]
  have nf: "\<not> (\<exists>status data. ?f = Response status (Inr data) \<and> ok status)"
    by simp
  note l = settled [THEN conjunct1]
  note kept = settled [THEN conjunct2, THEN conjunct2, THEN conjunct2, THEN conjunct2,
      THEN conjunct2, THEN mp, OF nf]
  have "?second = handleSearch_catch V2 ''Failed to fetch'' ?first"
    by (rule handleSearch_settle_NetworkError)
  then have tm: "toasts ?second = [(''Failed to fetch'', ''error'')]"
    by (simp add: handleSearch_catch_def showToast_def consoleLine_def first)
  from l kept first tm show "let both = handleSearch_send V2 ''what is RAG?''
                      (handleSearch_send V2 ''what is RAG?'' readyPage);
             first = handleSearch_settle V2 e (Response 200 (Inr exampleAnswerBody)) both;
             second = handleSearch_settle V2 e (NetworkError ''Failed to fetch'') first in
          loadingDisplay second = ''none'' \<and> answerDisplay second = ''block'' \<and>
          toasts second = [(''Failed to fetch'', ''error'')] \<and>
          answerText second = ''Twenty days.''"
    by (simp add: Let_def)
qed

text \<open>
  The claim as written has every run end either with the answer shown or with an error
  toast and the answer container hidden. A 200 whose body is \<^verbatim>\<open>null\<close> ends with the answer
  container visible and an error toast, the answer and the sources not rendered:
  \<^verbatim>\<open>displayAnswer\<close> makes the container visible and then throws on \<^verbatim>\<open>data.answer\<close>.
\<close>

theorem handleSearch_null_counterexample:
  "\<forall>e. (let s = handleSearch V2 e (Response 200 (Inr JNull)) readyPage in
          answerDisplay s = ''block'' \<and> loadingDisplay s = ''none'' \<and>
          toasts s = [(if nullReadMsg e ''answer'' \<noteq> [] then nullReadMsg e ''answer''
                       else ''Search failed'', ''error'')] \<and>
          answerText s = answerText readyPage \<and> sourcesList s = sourcesList readyPage)"
  by (simp add: handleSearch_def handleSearch_settle_def handleSearch_try_def handleSearch_catch_def
      handleSearch_send_def displayAnswer_def andThen_def
      showToast_def consoleLine_def ok_def Let_def trim_ready ready_fields)

section \<open>The card of a successful upload\<close>

lemma displayUploadResult_V1:
  assumes "interpolate e data ''filename'' = Inr fn"
    and "interpolate e data ''chunks_created'' = Inr ch"
    and "interpolate e data ''text_length'' = Inr tlen"
    and "interpolate e data ''doc_type'' = Inr dt"
  shows "displayUploadResult V1 e data st =
    (None, st\<lparr>uploadResultDisplay := ''block'',
               uploadResult := [fn, ch @ '' chunks created'', tlen @ '' characters processed'',
                                dt @ '' access level'']\<rparr>)"
  using assms
  by (simp add: displayUploadResult_def displayUploadResult_decls_def displayUploadResult_325_def
      andThen_def Let_def)

lemma displayUploadResult_V2:
  assumes "interpolate e data ''filename'' = Inr fn"
    and "interpolate e data ''chunks_created'' = Inr ch"
    and "interpolate e data ''doc_type'' = Inr dt"
  shows "displayUploadResult V2 e data st =
    (None, st\<lparr>uploadResult := [fn, ch @ '' chunks created'', ''Access: '' @ dt]\<rparr>)"
  using assms
  by (simp add: displayUploadResult_def displayUploadResult_decls_def displayUploadResult_176_def
      andThen_def)

lemma interpolate_example:
  "interpolate e exampleUploadBody ''filename'' = Inr ''doc1.pdf''"
  "interpolate e exampleUploadBody ''chunks_created'' = Inr ''6''"
  "interpolate e exampleUploadBody ''text_length'' = Inr ''1000''"
  "interpolate e exampleUploadBody ''doc_type'' = Inr ''HR''"
  by (simp_all add: interpolate_def exampleUploadBody_def andThen_def toStrV_def)

text \<open>
  C7, as amended. For a response to an upload with a status from 200 to 299 and a JSON
  body whose fields \<^verbatim>\<open>filename\<close>, \<^verbatim>\<open>chunks_created\<close>, \<^verbatim>\<open>text_length\<close> and \<^verbatim>\<open>doc_type\<close>
  convert to text (as they do for every body of the documented shape), the card of the
  first revision, drawn by the declaration at line 325 which replaces the one at line 176,
  shows all four fields; the card of the second revision shows \<^verbatim>\<open>filename\<close>,
  \<^verbatim>\<open>chunks_created\<close> and \<^verbatim>\<open>doc_type\<close> and leaves \<^verbatim>\<open>text_length\<close> out.
\<close>

theorem upload_result_card:
  assumes "selectedFile st = Some f" and "ok status"
    and "interpolate e data ''filename'' = Inr fn"
    and "interpolate e data ''chunks_created'' = Inr ch"
    and "interpolate e data ''text_length'' = Inr tlen"
    and "interpolate e data ''doc_type'' = Inr dt"
  shows "uploadResult (handleUpload v e (Response status (Inr data)) st) =
     (case v of
        V1 \<Rightarrow> [fn, ch @ '' chunks created'', tlen @ '' characters processed'',
               dt @ '' access level'']
      | V2 \<Rightarrow> [fn, ch @ '' chunks created'', ''Access: '' @ dt])"
proof (cases v)
  case V1
  with assms show ?thesis
    by (simp add: handleUpload_def handleUpload_settle_def handleUpload_try_def
        displayUploadResult_V1 [OF assms(3-6)])
next
  case V2
  with assms show ?thesis
    by (simp add: handleUpload_def handleUpload_settle_def handleUpload_try_def
        displayUploadResult_V2 [OF assms(3,4,6)])
qed

text \<open>The theorem for the first revision, at the ready page and the example response.\<close>

theorem upload_result_card_witness:
  "\<forall>e. uploadResult (handleUpload V1 e (Response 200 (Inr exampleUploadBody)) readyPage) =
          [''doc1.pdf'', ''6 chunks created'', ''1000 characters processed'', ''HR access level'']"
proof (intro allI)
  fix e
  have "ok 200" by (simp add: ok_def)
  from upload_result_card [OF ready_fields(1) this interpolate_example, of V1 e]
  show "uploadResult (handleUpload V1 e (Response 200 (Inr exampleUploadBody)) readyPage) =
          [''doc1.pdf'', ''6 chunks created'', ''1000 characters processed'', ''HR access level'']"
    by simp
qed

text \<open>
  The claim as written has all four fields shown after every successful upload. In the
  second revision the card of the example response has three lines, and the
  \<^verbatim>\<open>text_length\<close> of the response, 1000, is in none of them.
\<close>

theorem upload_result_V2_counterexample:
  "\<forall>e. uploadResult (handleUpload V2 e (Response 200 (Inr exampleUploadBody)) readyPage) =
          [''doc1.pdf'', ''6 chunks created'', ''Access: HR''] \<and>
        \<not> list_ex (sublist ''1000'') [''doc1.pdf'', ''6 chunks created'', ''Access: HR'']"
proof (intro allI conjI)
  fix e
  show "uploadResult (handleUpload V2 e (Response 200 (Inr exampleUploadBody)) readyPage) =
          [''doc1.pdf'', ''6 chunks created'', ''Access: HR'']"
    by (simp add: handleUpload_def handleUpload_settle_def handleUpload_try_def ready_fields
        ok_def displayUploadResult_V2 [OF interpolate_example(1,2,4)])
  show "\<not> list_ex (sublist ''1000'') [''doc1.pdf'', ''6 chunks created'', ''Access: HR'']"
    by code_simp
qed

section \<open>Further properties of the handlers\<close>

text \<open>
  X1. Whatever the \<^verbatim>\<open>fetch\<close> of an upload settles to, the \<^verbatim>\<open>finally\<close> block leaves the upload
  button enabled and without the class \<^verbatim>\<open>loading\<close>.
\<close>

theorem handleUpload_finally:
  "selectedFile st = Some f \<Longrightarrow>
   uploadBtnDisabled (handleUpload v e r st) = False \<and>
   uploadBtnLoading (handleUpload v e r st) = False"
  by (simp add: handleUpload_def handleUpload_settle_def Let_def split: prod.splits)

text \<open>The theorem at the ready page.\<close>

theorem handleUpload_finally_witness:
  "\<forall>e r. uploadBtnDisabled (handleUpload V2 e r readyPage) = False \<and>
          uploadBtnLoading (handleUpload V2 e r readyPage) = False"
  using handleUpload_finally [OF ready_fields(1), of V2] by simp

text \<open>
  X2. When the \<^verbatim>\<open>fetch\<close> itself fails, an upload and a search each show one error toast with
  the error's message, or with the handler's own text when the message is empty; the
  upload result stays cleared, and the search ends with the loading state and the answer
  container hidden.
\<close>

theorem network_failure:
  "(selectedFile st = Some f \<longrightarrow>
      toasts (handleUpload v e (NetworkError m) st) = toasts st @
        [(if m \<noteq> [] then m
          else (case v of V1 \<Rightarrow> ''Upload failed. Please try again.'' | V2 \<Rightarrow> ''Upload failed''),
          ''error'')] \<and>
      uploadResult (handleUpload v e (NetworkError m) st) = []) \<and>
   (trim (queryInput st) \<noteq> [] \<longrightarrow>
      toasts (handleSearch v e (NetworkError m) st) = toasts st @
        [(if m \<noteq> [] then m
          else (case v of V1 \<Rightarrow> ''Search failed. Please try again.'' | V2 \<Rightarrow> ''Search failed''),
          ''error'')] \<and>
      loadingDisplay (handleSearch v e (NetworkError m) st) = ''none'' \<and>
      answerDisplay (handleSearch v e (NetworkError m) st) = ''none'')"
  by (simp add: handleUpload_def handleUpload_settle_def handleUpload_try_def handleUpload_catch_def
      handleUpload_send_def handleSearch_def handleSearch_settle_def handleSearch_try_def
      handleSearch_catch_def handleSearch_send_def showToast_def consoleLine_def Let_def)

text \<open>The theorem at the ready page, for an error with a message and for one without.\<close>

theorem network_failure_witness:
  "\<forall>e. toasts (handleUpload V1 e (NetworkError ''Failed to fetch'') readyPage)
          = [(''Failed to fetch'', ''error'')] \<and>
        toasts (handleSearch V1 e (NetworkError '''') readyPage)
          = [(''Search failed. Please try again.'', ''error'')] \<and>
        answerDisplay (handleSearch V1 e (NetworkError '''') readyPage) = ''none''"
proof (intro allI)
  fix e
  have q: "trim (queryInput readyPage) \<noteq> []"
    by (simp add: trim_ready)
  note u = network_failure [of readyPage examplePdf V1 e "''Failed to fetch''",
      THEN conjunct1, THEN mp, OF ready_fields(1)]
  note s = network_failure [of readyPage examplePdf V1 e "''''", THEN conjunct2, THEN mp, OF q]
  from u s show "toasts (handleUpload V1 e (NetworkError ''Failed to fetch'') readyPage)
          = [(''Failed to fetch'', ''error'')] \<and>
        toasts (handleSearch V1 e (NetworkError '''') readyPage)
          = [(''Search failed. Please try again.'', ''error'')] \<and>
        answerDisplay (handleSearch V1 e (NetworkError '''') readyPage) = ''none''"
    by (simp add: ready_fields)
qed

section \<open>Retrieval under a role\<close>

lemma set_insertDesc: "set (insertDesc f x xs) = insert x (set xs)"
  by (induction xs) auto

lemma set_sortDesc: "set (sortDesc f xs) = set xs"
  by (induction xs) (simp_all add: sortDesc_def set_insertDesc)

lemma search_allowed:
  assumes "(c, s) \<in> set (search score index qv k tags)"
  shows "access_tag c \<in> set tags"
proof -
  from assms have "(c, s) \<in> set (sortDesc snd (map (\<lambda>c. (c, score qv (embedding c)))
         (filter (\<lambda>c. access_tag c \<in> set tags) index)))"
    unfolding search_def by (rule in_set_takeD)
  then show ?thesis by (auto simp add: set_sortDesc)
qed

lemma search_filtered:
  "search score (filter (\<lambda>c. access_tag c \<in> set tags) index) qv k tags =
   search score index qv k tags"
  by (simp add: search_def)

text \<open>
  C2. For a role \<open>R\<close> that the configuration maps to the tags \<open>tags\<close>, and any index,
  every chunk \<open>retrieve\<close> returns has its access tag among \<open>tags\<close>. The chunks with
  other tags are left out of the search: taking them out of the index changes nothing in
  what \<open>retrieve\<close> returns.
\<close>

theorem retrieve_respects_roles:
  "map_of cfg R = Some tags \<Longrightarrow>
   (\<forall>rs. retrieve cfg embedder score index q R k = Inr rs \<longrightarrow>
      (\<forall>r \<in> set rs. access_tag (fst r) \<in> set tags)) \<and>
   retrieve cfg embedder score (filter (\<lambda>c. access_tag c \<in> set tags) index) q R k =
     retrieve cfg embedder score index q R k"
  by (auto simp add: retrieve_def allowed_tags_def search_filtered
      split: sum.splits dest: search_allowed)

text \<open>
  The theorem at the example index, whose second chunk is tagged HR: an Employee's query
  gets the two Employee chunks, the earlier one first since they score the same.
\<close>

theorem retrieve_respects_roles_witness:
  "map_of [(''Employee'', [''Employee'']), (''HR'', [''Employee'', ''HR''])] ''Employee''
     = Some [''Employee''] \<and>
   retrieve [(''Employee'', [''Employee'']), (''HR'', [''Employee'', ''HR''])]
      (\<lambda>s. Inr (int (length s))) (\<lambda>q v. - \<bar>q - v\<bar>) exampleIndex ''abcd'' ''Employee'' 5
     = Inr [(exampleIndex ! 0, - 1), (exampleIndex ! 2, - 1)] \<and>
   access_tag (exampleIndex ! 0) \<in> set [''Employee''] \<and>
   access_tag (exampleIndex ! 2) \<in> set [''Employee'']"
proof -
  let ?cfg = "[(''Employee'', [''Employee'']), (''HR'', [''Employee'', ''HR''])]"
  have m: "map_of ?cfg ''Employee'' = Some [''Employee'']"
    by simp
  have r: "retrieve ?cfg (\<lambda>s. Inr (int (length s))) (\<lambda>q v. - \<bar>q - v\<bar>) exampleIndex
      ''abcd'' ''Employee'' 5 = Inr [(exampleIndex ! 0, - 1), (exampleIndex ! 2, - 1)]"
    by (simp add: retrieve_def allowed_tags_def search_def sortDesc_def exampleIndex_def)
  note t = retrieve_respects_roles [OF m, of "\<lambda>s. Inr (int (length s))" "\<lambda>q v. - \<bar>q - v\<bar>"
      exampleIndex "''abcd''" 5, THEN conjunct1, rule_format, OF r]
  from t [of "(exampleIndex ! 0, - 1)"] t [of "(exampleIndex ! 2, - 1)"] m r
  show ?thesis by simp
qed

end
